theory Spec2Isabelle
  imports Main
begin

section \<open>JavaScript values and built-ins used by the code\<close>

text \<open>
  The repository is TypeScript. Exceptions are values: a function that can throw returns
  \<open>error + 'a\<close>, with \<open>Inl\<close> the exception. Strings are \<open>char list\<close>; the code under
  study only inspects ASCII characters, so a character of the model is one byte.
\<close>

datatype error = Error string | SyntaxError | RangeError | TypeError

subsection \<open>String methods\<close>

text \<open>\<open>s.startsWith(p)\<close>\<close>

fun startsWith :: "string \<Rightarrow> string \<Rightarrow> bool" where
  "startsWith s [] = True"
| "startsWith [] (p # ps) = False"
| "startsWith (c # cs) (p # ps) = (c = p \<and> startsWith cs ps)"

text \<open>\<open>s.includes(sub)\<close>: \<open>sub\<close> occurs somewhere in \<open>s\<close>.\<close>

fun includes_str :: "string \<Rightarrow> string \<Rightarrow> bool" where
  "includes_str [] sub = (sub = [])"
| "includes_str (c # cs) sub = (startsWith (c # cs) sub \<or> includes_str cs sub)"

text \<open>\<open>s.padStart(n, c)\<close> and \<open>s.padEnd(n, c)\<close> with a one-character filler.\<close>

definition padStart :: "nat \<Rightarrow> char \<Rightarrow> string \<Rightarrow> string" where
  "padStart n c s = replicate (n - length s) c @ s"

definition padEnd :: "nat \<Rightarrow> char \<Rightarrow> string \<Rightarrow> string" where
  "padEnd n c s = s @ replicate (n - length s) c"

text \<open>\<open>s.replace(/0+$/, '')\<close>: the trailing run of zeros is removed.\<close>

definition strip_trailing_zeros :: "string \<Rightarrow> string" where
  "strip_trailing_zeros s = rev (dropWhile (\<lambda>c. c = CHR ''0'') (rev s))"

text \<open>\<open>s.split(sep)\<close> with a one-character separator: never the empty list.\<close>

fun split :: "char \<Rightarrow> string \<Rightarrow> string list" where
  "split sep [] = [[]]"
| "split sep (c # cs) =
     (if c = sep then [] # split sep cs
      else (case split sep cs of [] \<Rightarrow> [[c]] | p # ps \<Rightarrow> (c # p) # ps))"

text \<open>\<open>xs.join(sep)\<close> on an array of strings.\<close>

fun join :: "string \<Rightarrow> string list \<Rightarrow> string" where
  "join sep [] = []"
| "join sep [x] = x"
| "join sep (x # y # ys) = x @ sep @ join sep (y # ys)"

text \<open>\<open>s.toUpperCase()\<close> on ASCII letters; other bytes are left as they are.\<close>

definition upper_char :: "char \<Rightarrow> char" where
  "upper_char c =
     (case map_of (zip ''abcdefghijklmnopqrstuvwxyz'' ''ABCDEFGHIJKLMNOPQRSTUVWXYZ'') c of
        None \<Rightarrow> c | Some u \<Rightarrow> u)"

definition toUpperCase :: "string \<Rightarrow> string" where
  "toUpperCase s = map upper_char s"

text \<open>\<open>a || b\<close> on strings that may be absent: \<open>undefined\<close> and \<open>''\<close> are falsy.\<close>

definition or_else :: "string option \<Rightarrow> string \<Rightarrow> string" where
  "or_else a b = (case a of None \<Rightarrow> b | Some s \<Rightarrow> if s = [] then b else s)"

subsection \<open>BigInt\<close>

text \<open>
  A BigInt is an \<open>int\<close>. \<open>toString\<close> writes the canonical decimal numeral, with a leading
  minus sign for a negative value.
\<close>

definition digit_char :: "nat \<Rightarrow> char" where
  "digit_char n = ''0123456789'' ! n"

fun digits_of :: "nat \<Rightarrow> string" where
  "digits_of n =
     (if n < 10 then [digit_char n] else digits_of (n div 10) @ [digit_char (n mod 10)])"

declare digits_of.simps [simp del]

definition BigInt_toString :: "int \<Rightarrow> string" where
  "BigInt_toString i = (if i < 0 then CHR ''-'' # digits_of (nat (- i)) else digits_of (nat i))"

text \<open>
  \<open>BigInt(s)\<close> on a string follows StringToBigInt: surrounding white space is dropped, the
  empty string is zero, a decimal numeral may carry a sign, and the prefixes \<open>0x\<close>,
  \<open>0o\<close>, \<open>0b\<close> (either case, unsigned) select another radix. Anything else, a decimal
  point included, is a SyntaxError.
\<close>

definition is_space :: "char \<Rightarrow> bool" where
  "is_space c = (c \<in> set [CHR 0x20, CHR 0x09, CHR 0x0A, CHR 0x0B, CHR 0x0C, CHR 0x0D])"

definition trim :: "string \<Rightarrow> string" where
  "trim s = rev (dropWhile is_space (rev (dropWhile is_space s)))"

definition digit_val :: "char \<Rightarrow> nat option" where
  "digit_val c =
     map_of (zip ''0123456789abcdefABCDEF''
                 [0, 1, 2, 3, 4, 5, 6, 7, 8, 9, 10, 11, 12, 13, 14, 15, 10, 11, 12, 13, 14, 15]) c"

fun radix_value :: "nat \<Rightarrow> nat \<Rightarrow> string \<Rightarrow> nat option" where
  "radix_value b acc [] = Some acc"
| "radix_value b acc (c # cs) =
     (case digit_val c of
        None \<Rightarrow> None
      | Some v \<Rightarrow> if v < b then radix_value b (acc * b + v) cs else None)"

definition parse_radix :: "nat \<Rightarrow> string \<Rightarrow> nat option" where
  "parse_radix b s = (if s = [] then None else radix_value b 0 s)"

definition StringToBigInt :: "string \<Rightarrow> int option" where
  "StringToBigInt s =
     (let t = trim s in
      if t = [] then Some 0
      else if startsWith t ''0x'' \<or> startsWith t ''0X'' then map_option int (parse_radix 16 (drop 2 t))
      else if startsWith t ''0o'' \<or> startsWith t ''0O'' then map_option int (parse_radix 8 (drop 2 t))
      else if startsWith t ''0b'' \<or> startsWith t ''0B'' then map_option int (parse_radix 2 (drop 2 t))
      else if startsWith t ''-'' then map_option (\<lambda>n. - int n) (parse_radix 10 (drop 1 t))
      else if startsWith t ''+'' then map_option int (parse_radix 10 (drop 1 t))
      else map_option int (parse_radix 10 t))"

definition BigInt_of_string :: "string \<Rightarrow> error + int" where
  "BigInt_of_string s = (case StringToBigInt s of None \<Rightarrow> Inl SyntaxError | Some n \<Rightarrow> Inr n)"

text \<open>
  BigInt \<open>/\<close> truncates towards zero and \<open>%\<close> takes the sign of the dividend. Every divisor
  in the code is \<open>BigInt(10 ** decimals)\<close>, which is at least one, so the RangeError of a
  division by zero has no branch.
\<close>

definition bigint_div :: "int \<Rightarrow> int \<Rightarrow> int" where
  "bigint_div a b = sgn a * sgn b * (\<bar>a\<bar> div \<bar>b\<bar>)"

definition bigint_rem :: "int \<Rightarrow> int \<Rightarrow> int" where
  "bigint_rem a b = sgn a * (\<bar>a\<bar> mod \<bar>b\<bar>)"

subsection \<open>The Number \<open>10 ** decimals\<close>\<close>

text \<open>
  \<open>10 ** decimals\<close> is computed on Numbers, IEEE 754 doubles, before \<open>BigInt\<close> converts the
  result. The model takes a decimal-place count that is a natural number and rounds the exact
  power to the nearest double (53 significant bits, ties to even); a power beyond the largest
  double is \<open>Infinity\<close>, which \<open>BigInt\<close> refuses with a RangeError. Up to \<open>10 ** 22\<close> the
  power is a double and nothing is rounded. Beyond that ECMAScript leaves the result of
  \<open>**\<close> to the implementation as an approximation, and an engine may return a double next to
  the correctly rounded one (at 26 and 29 decimal places, for instance). The model therefore
  stands for the engine only up to 22 decimal places and at 27, where the double is
  \<open>1000000000000000013287555072\<close>; the theorems below use it at no other count.
\<close>

fun bitlen :: "nat \<Rightarrow> nat" where
  "bitlen n = (if n = 0 then 0 else Suc (bitlen (n div 2)))"

declare bitlen.simps [simp del]

definition Number_of_nat :: "nat \<Rightarrow> nat option" where
  "Number_of_nat n =
     (if bitlen n \<le> 53 then Some n
      else let e = bitlen n - 53; q = n div 2 ^ e; r = n mod 2 ^ e; half = 2 ^ (e - 1);
               q' = (if half < r \<or> (r = half \<and> odd q) then q + 1 else q)
           in if 2 ^ 1024 \<le> q' * 2 ^ e then None else Some (q' * 2 ^ e))"

definition BigInt_pow10 :: "nat \<Rightarrow> error + int" where
  "BigInt_pow10 decimals =
     (case Number_of_nat (10 ^ decimals) of None \<Rightarrow> Inl RangeError | Some n \<Rightarrow> Inr (int n))"

section \<open>Amount formatter (src/lib/utils/amount-formatter.ts)\<close>

text \<open>
  The body shared by \<open>AmountFormatter.fromBaseUnits\<close> and \<open>TransactionParser.formatAmount\<close>
  once the value and the divisor are BigInts.
\<close>

definition decimal_string :: "int \<Rightarrow> int \<Rightarrow> nat \<Rightarrow> string" where
  "decimal_string numValue divisor decimals =
     (let integerPart = bigint_div numValue divisor;
          fractionalPart = bigint_rem numValue divisor
      in if fractionalPart = 0 then BigInt_toString integerPart
         else let fractionalStr = padStart decimals (CHR ''0'') (BigInt_toString fractionalPart);
                  trimmedFractional = strip_trailing_zeros fractionalStr
              in BigInt_toString integerPart @ ''.'' @ trimmedFractional)"

definition fromBaseUnits :: "string \<Rightarrow> nat \<Rightarrow> error + string" where
  "fromBaseUnits baseUnits decimals =
     (case BigInt_of_string baseUnits of
        Inl e \<Rightarrow> Inl e
      | Inr numValue \<Rightarrow>
          (case BigInt_pow10 decimals of
             Inl e \<Rightarrow> Inl e
           | Inr divisor \<Rightarrow> Inr (decimal_string numValue divisor decimals)))"

definition toBaseUnits :: "string \<Rightarrow> nat \<Rightarrow> error + string" where
  "toBaseUnits val decimals =
     (let parts = split (CHR ''.'') val;
          integerPart = or_else (Some (parts ! 0)) ''0'';
          fractionalPart =
            take decimals
              (padEnd decimals (CHR ''0'')
                 (or_else (if 1 < length parts then Some (parts ! 1) else None) ''''))
      in case BigInt_of_string integerPart of
           Inl e \<Rightarrow> Inl e
         | Inr i \<Rightarrow>
             (case BigInt_pow10 decimals of
                Inl e \<Rightarrow> Inl e
              | Inr p \<Rightarrow>
                  (case BigInt_of_string fractionalPart of
                     Inl e \<Rightarrow> Inl e
                   | Inr f \<Rightarrow> Inr (BigInt_toString (i * p + f)))))"

section \<open>Amount formatting in the transaction parser (src/lib/blockchain/transaction-parser.ts)\<close>

text \<open>
  \<open>getDecimals\<close> reads \<open>knownDecimals[denom] || 6\<close> from a plain object literal. A key that
  is the name of a member inherited from \<open>Object.prototype\<close> finds that member, which is
  truthy and not a number: the result is \<open>None\<close>, and \<open>BigInt(10 ** decimals)\<close> then
  raises a RangeError on \<open>NaN\<close>.
\<close>

definition object_prototype_keys :: "string list" where
  "object_prototype_keys =
     [''constructor'', ''hasOwnProperty'', ''isPrototypeOf'', ''propertyIsEnumerable'',
      ''toLocaleString'', ''toString'', ''valueOf'', ''__proto__'', ''__defineGetter__'',
      ''__defineSetter__'', ''__lookupGetter__'', ''__lookupSetter__'']"

definition getDecimals :: "string \<Rightarrow> nat option" where
  "getDecimals denom =
     (if startsWith denom ''ibc/'' then Some 6
      else (case map_of [(''uosmo'', 6), (''uion'', 6), (''uatom'', 6)] denom of
              Some d \<Rightarrow> Some d
            | None \<Rightarrow> if denom \<in> set object_prototype_keys then None else Some 6))"

definition formatAmount :: "string \<Rightarrow> string \<Rightarrow> error + string" where
  "formatAmount val denom =
     (let decimals = getDecimals denom in
      case BigInt_of_string val of
        Inl e \<Rightarrow> Inl e
      | Inr numValue \<Rightarrow>
          (case decimals of
             None \<Rightarrow> Inl RangeError
           | Some d \<Rightarrow>
               (case BigInt_pow10 d of
                  Inl e \<Rightarrow> Inl e
                | Inr divisor \<Rightarrow> Inr (decimal_string numValue divisor d))))"

text \<open>
  \<open>denomToSymbol\<close>. For a name inherited from \<open>Object.prototype\<close> the JavaScript function
  returns the inherited member, which is no string; the parser calls \<open>formatAmount\<close> on the
  same denomination first, and that call has already raised there.
\<close>

definition denomToSymbol :: "string \<Rightarrow> string" where
  "denomToSymbol denom =
     (case map_of [(''uosmo'', ''OSMO''), (''uion'', ''ION''), (''uatom'', ''ATOM'')] denom of
        Some s \<Rightarrow> s
      | None \<Rightarrow>
          if startsWith denom ''ibc/'' then ''IBC/'' @ toUpperCase (take 6 (drop 4 denom))
          else if startsWith denom ''u'' then toUpperCase (drop 1 denom)
          else toUpperCase denom)"

section \<open>Parsing raw messages (src/lib/blockchain/transaction-parser.ts)\<close>

datatype TransactionType =
  Swap | Transfer | Stake | Unstake | Claim_rewards | Provide_liquidity | Remove_liquidity
  | Vote | Unknown

record Amount =
  value' :: string
  denom :: string
  symbol :: string

text \<open>
  The raw records are loosely typed objects. A field that may be missing is an option
  (\<open>None\<close> for \<open>undefined\<close> or \<open>null\<close>); a coin is the ledger's \<open>{denom, amount}\<close> object.
  The \<open>amount\<close> field of a message is a list of coins in \<open>MsgSend\<close> and a single coin in
  the staking messages, and every parser function reads whichever it finds.
\<close>

record Coin =
  raw_denom :: "string option"
  raw_amount :: "string option"

record Route =
  tokenOutDenom :: "string option"
  tokenInDenom :: "string option"

datatype amount_field = NoAmount | CoinList "Coin option list" | OneCoin Coin

record Message =
  at_type :: "string option"
  typeUrl :: "string option"
  tokenIn :: "Coin option"
  tokenOutMinAmount :: "string option"
  routes :: "Route list option"
  tokenInMaxAmount :: "string option"
  tokenOut :: "Coin option"
  amount :: amount_field
  tokensIn :: "Coin option list option"
  tokensOut :: "Coin option list option"

type_synonym ParsedTransaction = "TransactionType \<times> Amount list"

definition parseAmount :: "Coin option \<Rightarrow> error + Amount" where
  "parseAmount amt =
     (case amt of
        None \<Rightarrow> Inr \<lparr>value' = ''0'', denom = ''unknown'', symbol = ''UNKNOWN''\<rparr>
      | Some c \<Rightarrow>
          (let d = or_else (raw_denom c) ''unknown'';
               v = or_else (raw_amount c) ''0''
           in case formatAmount v d of
                Inl e \<Rightarrow> Inl e
              | Inr fv \<Rightarrow> Inr \<lparr>value' = fv, denom = d, symbol = denomToSymbol d\<rparr>))"

text \<open>\<open>amounts.map(amt => this.parseAmount(amt))\<close>: the first exception ends the map.\<close>

fun parseAmounts :: "Coin option list \<Rightarrow> error + Amount list" where
  "parseAmounts [] = Inr []"
| "parseAmounts (c # cs) =
     (case parseAmount c of
        Inl e \<Rightarrow> Inl e
      | Inr a \<Rightarrow> (case parseAmounts cs of Inl e \<Rightarrow> Inl e | Inr as \<Rightarrow> Inr (a # as)))"

text \<open>A non-empty string is truthy.\<close>

definition truthy :: "string option \<Rightarrow> bool" where
  "truthy s = (case s of None \<Rightarrow> False | Some t \<Rightarrow> t \<noteq> [])"

text \<open>
  The swap parsers hand the route's denomination to \<open>formatAmount\<close> as it is, before the
  \<open>|| 'unknown'\<close> default: on a route without the field, \<open>getDecimals\<close> calls
  \<open>startsWith\<close> on \<open>undefined\<close>, a TypeError.
\<close>

definition route_amount :: "string \<Rightarrow> string option \<Rightarrow> error + Amount" where
  "route_amount v route_denom =
     (case route_denom of
        None \<Rightarrow> Inl TypeError
      | Some d \<Rightarrow>
          (case formatAmount v d of
             Inl e \<Rightarrow> Inl e
           | Inr fv \<Rightarrow>
               Inr \<lparr>value' = fv, denom = or_else route_denom ''unknown'',
                    symbol = denomToSymbol (or_else route_denom ''unknown'')\<rparr>))"

definition parseMsgSwapExactAmountIn :: "Message \<Rightarrow> error + ParsedTransaction" where
  "parseMsgSwapExactAmountIn msg =
     (case (case tokenIn msg of
              None \<Rightarrow> Inr []
            | Some c \<Rightarrow> (case parseAmount (Some c) of Inl e \<Rightarrow> Inl e | Inr a \<Rightarrow> Inr [a])) of
        Inl e \<Rightarrow> Inl e
      | Inr amounts \<Rightarrow>
          (case (tokenOutMinAmount msg, routes msg) of
             (Some v, Some (r # rs)) \<Rightarrow>
               if v = [] then Inr (Swap, amounts)
               else (case route_amount v (tokenOutDenom (last (r # rs))) of
                       Inl e \<Rightarrow> Inl e
                     | Inr a \<Rightarrow> Inr (Swap, amounts @ [a]))
           | _ \<Rightarrow> Inr (Swap, amounts)))"

definition parseMsgSwapExactAmountOut :: "Message \<Rightarrow> error + ParsedTransaction" where
  "parseMsgSwapExactAmountOut msg =
     (case (case (tokenInMaxAmount msg, routes msg) of
              (Some v, Some (r # rs)) \<Rightarrow>
                if v = [] then Inr []
                else (case route_amount v (tokenInDenom r) of Inl e \<Rightarrow> Inl e | Inr a \<Rightarrow> Inr [a])
            | _ \<Rightarrow> Inr []) of
        Inl e \<Rightarrow> Inl e
      | Inr amounts \<Rightarrow>
          (case tokenOut msg of
             None \<Rightarrow> Inr (Swap, amounts)
           | Some c \<Rightarrow>
               (case parseAmount (Some c) of
                  Inl e \<Rightarrow> Inl e
                | Inr a \<Rightarrow> Inr (Swap, amounts @ [a]))))"

text \<open>
  \<open>this.parseAmounts(msg.amount || [])\<close>: \<open>parseAmounts\<close> answers the empty list for
  anything that is not an array.
\<close>

definition parseMsgSend :: "Message \<Rightarrow> string \<Rightarrow> error + ParsedTransaction" where
  "parseMsgSend msg address =
     (case (case amount msg of CoinList cs \<Rightarrow> parseAmounts cs | _ \<Rightarrow> Inr []) of
        Inl e \<Rightarrow> Inl e
      | Inr amounts \<Rightarrow> Inr (Transfer, amounts))"

text \<open>
  \<open>msg.amount ? [this.parseAmount(msg.amount)] : []\<close>: an array is truthy and has neither
  \<open>denom\<close> nor \<open>amount\<close>, so \<open>parseAmount\<close> reads it as a coin with both fields missing.
\<close>

definition single_amount :: "amount_field \<Rightarrow> error + Amount list" where
  "single_amount f =
     (case f of
        NoAmount \<Rightarrow> Inr []
      | OneCoin c \<Rightarrow> (case parseAmount (Some c) of Inl e \<Rightarrow> Inl e | Inr a \<Rightarrow> Inr [a])
      | CoinList cs \<Rightarrow>
          (case parseAmount (Some \<lparr>raw_denom = None, raw_amount = None\<rparr>) of
             Inl e \<Rightarrow> Inl e
           | Inr a \<Rightarrow> Inr [a]))"

definition parseMsgDelegate :: "Message \<Rightarrow> error + ParsedTransaction" where
  "parseMsgDelegate msg =
     (case single_amount (amount msg) of Inl e \<Rightarrow> Inl e | Inr amounts \<Rightarrow> Inr (Stake, amounts))"

definition parseMsgUndelegate :: "Message \<Rightarrow> error + ParsedTransaction" where
  "parseMsgUndelegate msg =
     (case single_amount (amount msg) of Inl e \<Rightarrow> Inl e | Inr amounts \<Rightarrow> Inr (Unstake, amounts))"

definition parseMsgWithdrawDelegatorReward :: "Message \<Rightarrow> error + ParsedTransaction" where
  "parseMsgWithdrawDelegatorReward msg = Inr (Claim_rewards, [])"

definition parseMsgJoinPool :: "Message \<Rightarrow> error + ParsedTransaction" where
  "parseMsgJoinPool msg =
     (case parseAmounts (case tokensIn msg of None \<Rightarrow> [] | Some cs \<Rightarrow> cs) of
        Inl e \<Rightarrow> Inl e
      | Inr amounts \<Rightarrow> Inr (Provide_liquidity, amounts))"

definition parseMsgExitPool :: "Message \<Rightarrow> error + ParsedTransaction" where
  "parseMsgExitPool msg =
     (case parseAmounts (case tokensOut msg of None \<Rightarrow> [] | Some cs \<Rightarrow> cs) of
        Inl e \<Rightarrow> Inl e
      | Inr amounts \<Rightarrow> Inr (Remove_liquidity, amounts))"

definition parseMsgVote :: "Message \<Rightarrow> error + ParsedTransaction" where
  "parseMsgVote msg = Inr (Vote, [])"

text \<open>\<open>firstMsg['@type'] || firstMsg.typeUrl || ''\<close>\<close>

definition msgType_of :: "Message \<Rightarrow> string" where
  "msgType_of firstMsg = or_else (at_type firstMsg) (or_else (typeUrl firstMsg) [])"

definition parseMessages :: "Message list option \<Rightarrow> string \<Rightarrow> error + ParsedTransaction" where
  "parseMessages messages address =
     (case messages of
        None \<Rightarrow> Inr (Unknown, [])
      | Some [] \<Rightarrow> Inr (Unknown, [])
      | Some (firstMsg # _) \<Rightarrow>
          (let msgType = msgType_of firstMsg in
           if includes_str msgType ''MsgSwapExactAmountIn'' then parseMsgSwapExactAmountIn firstMsg
           else if includes_str msgType ''MsgSwapExactAmountOut'' then parseMsgSwapExactAmountOut firstMsg
           else if includes_str msgType ''MsgSend'' then parseMsgSend firstMsg address
           else if includes_str msgType ''MsgDelegate'' then parseMsgDelegate firstMsg
           else if includes_str msgType ''MsgUndelegate'' then parseMsgUndelegate firstMsg
           else if includes_str msgType ''MsgWithdrawDelegatorReward''
             then parseMsgWithdrawDelegatorReward firstMsg
           else if includes_str msgType ''MsgJoinPool'' \<or> includes_str msgType ''JoinPool''
             then parseMsgJoinPool firstMsg
           else if includes_str msgType ''MsgExitPool'' \<or> includes_str msgType ''ExitPool''
             then parseMsgExitPool firstMsg
           else if includes_str msgType ''MsgVote'' then parseMsgVote firstMsg
           else Inr (Unknown, [])))"

record Fee =
  fee_amount :: "Coin option list option"

definition parseFee :: "Fee option \<Rightarrow> error + Amount" where
  "parseFee fee =
     (case fee of
        None \<Rightarrow> Inr \<lparr>value' = ''0'', denom = ''uosmo'', symbol = ''OSMO''\<rparr>
      | Some f \<Rightarrow>
          (case fee_amount f of
             None \<Rightarrow> Inr \<lparr>value' = ''0'', denom = ''uosmo'', symbol = ''OSMO''\<rparr>
           | Some [] \<Rightarrow> Inr \<lparr>value' = ''0'', denom = ''uosmo'', symbol = ''OSMO''\<rparr>
           | Some (c # _) \<Rightarrow> parseAmount c))"

section \<open>Dates\<close>

text \<open>
  A JavaScript \<open>Date\<close> holds a time value, milliseconds since the epoch, or \<open>NaN\<close>.
  \<open>new Date(ms)\<close> keeps a time value of magnitude at most \<open>8.64e15\<close> and is invalid beyond.
\<close>

datatype Date = Time int | InvalidDate

definition new_Date :: "int \<Rightarrow> Date" where
  "new_Date ms = (if \<bar>ms\<bar> \<le> 8640000000000000 then Time ms else InvalidDate)"

text \<open>The comparison \<open>a < b\<close> of two dates compares time values; with \<open>NaN\<close> it is false.\<close>

fun date_less :: "Date \<Rightarrow> Date \<Rightarrow> bool" where
  "date_less (Time a) (Time b) = (a < b)"
| "date_less _ _ = False"

text \<open>
  \<open>toISOString\<close> of a valid date: the proleptic Gregorian date of the day number, then the
  time of day, in UTC. Years outside 0 to 9999 are written with a sign and six digits.
\<close>

definition pad_num :: "nat \<Rightarrow> int \<Rightarrow> string" where
  "pad_num n i = padStart n (CHR ''0'') (digits_of (nat i))"

definition civil_from_days :: "int \<Rightarrow> int \<times> int \<times> int" where
  "civil_from_days days =
     (let z = days + 719468;
          era = z div 146097;
          doe = z - era * 146097;
          yoe = (doe - doe div 1460 + doe div 36524 - doe div 146096) div 365;
          y = yoe + era * 400;
          doy = doe - (365 * yoe + yoe div 4 - yoe div 100);
          mp = (5 * doy + 2) div 153;
          d = doy - (153 * mp + 2) div 5 + 1;
          m = (if mp < 10 then mp + 3 else mp - 9)
      in (if m \<le> 2 then y + 1 else y, m, d))"

definition toISOString :: "int \<Rightarrow> string" where
  "toISOString ms =
     (let ymd = civil_from_days (ms div 86400000);
          y = fst ymd; m = fst (snd ymd); d = snd (snd ymd);
          t = ms mod 86400000;
          year = (if 0 \<le> y \<and> y \<le> 9999 then pad_num 4 y
                  else (if y < 0 then ''-'' else ''+'') @ pad_num 6 \<bar>y\<bar>)
      in year @ ''-'' @ pad_num 2 m @ ''-'' @ pad_num 2 d @ ''T'' @
         pad_num 2 (t div 3600000) @ '':'' @ pad_num 2 (t div 60000 mod 60) @ '':'' @
         pad_num 2 (t div 1000 mod 60) @ ''.'' @ pad_num 3 (t mod 1000) @ ''Z'')"

text \<open>\<open>DateFormatter.toISO8601\<close> and \<open>formatForCSV\<close> on a \<open>Date\<close> (src/unnamed/part_005).\<close>

definition toISO8601 :: "Date \<Rightarrow> error + string" where
  "toISO8601 timestamp =
     (case timestamp of
        InvalidDate \<Rightarrow> Inl (Error ''Invalid timestamp provided'')
      | Time ms \<Rightarrow> Inr (toISOString ms))"

definition formatForCSV :: "Date \<Rightarrow> error + string" where
  "formatForCSV date = toISO8601 date"

section \<open>Ledger client (src/lib/blockchain/osmosis-client.ts)\<close>

datatype TransactionStatus = Success | Failed | Pending

record Transaction =
  hash :: string
  timestamp :: Date
  tx_type :: TransactionType
  status :: TransactionStatus
  amounts :: "Amount list"
  fee :: Amount
  memo :: "string option"

text \<open>
  The raw record of the ledger: \<open>tx.hash\<close>, \<open>tx.height\<close>, \<open>tx.code\<close>,
  \<open>tx.tx.body.messages\<close>, \<open>tx.tx.body.memo\<close> and \<open>tx.tx.authInfo.fee\<close>.
\<close>

record RawTx =
  raw_hash :: string
  height :: int
  code :: int
  body_messages :: "Message list option"
  body_memo :: "string option"
  authInfo_fee :: "Fee option"

record FetchOptions =
  limit :: "nat option"
  offset :: "nat option"
  startDate :: "Date option"
  endDate :: "Date option"

subsection \<open>Address validation\<close>

text \<open>
  The regular expression \<open>/^osmo[a-z0-9]{39}$/\<close>: a sequence of atoms, each consuming one
  character, anchored at both ends. \<open>test\<close> holds when the whole string is consumed.
\<close>

datatype regex_atom = Lit char | Class "(char \<times> char) list"

fun atom_matches :: "regex_atom \<Rightarrow> char \<Rightarrow> bool" where
  "atom_matches (Lit a) c = (c = a)"
| "atom_matches (Class ranges) c =
     list_ex (\<lambda>(lo, hi). (of_char lo :: nat) \<le> of_char c \<and> (of_char c :: nat) \<le> of_char hi) ranges"

fun regex_test :: "regex_atom list \<Rightarrow> string \<Rightarrow> bool" where
  "regex_test [] s = (s = [])"
| "regex_test (a # as) [] = False"
| "regex_test (a # as) (c # cs) = (atom_matches a c \<and> regex_test as cs)"

definition osmosisAddressRegex :: "regex_atom list" where
  "osmosisAddressRegex =
     map Lit ''osmo'' @ replicate 39 (Class [(CHR ''a'', CHR ''z''), (CHR ''0'', CHR ''9'')])"

definition validateAddress :: "string \<Rightarrow> bool" where
  "validateAddress address = regex_test osmosisAddressRegex address"

subsection \<open>Fetching\<close>

definition parseTransaction :: "RawTx \<Rightarrow> string \<Rightarrow> error + Transaction" where
  "parseTransaction tx address =
     (case parseMessages (body_messages tx) address of
        Inl e \<Rightarrow> Inl e
      | Inr (ty, amts) \<Rightarrow>
          (case parseFee (authInfo_fee tx) of
             Inl e \<Rightarrow> Inl e
           | Inr f \<Rightarrow>
               Inr \<lparr>hash = raw_hash tx,
                    timestamp = new_Date (height tx * 5000),
                    tx_type = ty,
                    status = (if code tx = 0 then Success else Failed),
                    amounts = amts,
                    fee = f,
                    memo = (if truthy (body_memo tx) then body_memo tx else None)\<rparr>))"

text \<open>
  The \<open>for\<close> loop over one page inside the \<open>try\<close> block. Each record is parsed, filtered by
  the dates and pushed; an exception leaves the loop with the records pushed so far.
\<close>

definition date_filtered :: "FetchOptions option \<Rightarrow> Transaction \<Rightarrow> bool" where
  "date_filtered options parsedTx =
     (case options of
        None \<Rightarrow> False
      | Some opts \<Rightarrow>
          (case startDate opts of None \<Rightarrow> False | Some d \<Rightarrow> date_less (timestamp parsedTx) d)
          \<or> (case endDate opts of None \<Rightarrow> False | Some d \<Rightarrow> date_less d (timestamp parsedTx)))"

fun push_page ::
  "string \<Rightarrow> FetchOptions option \<Rightarrow> RawTx list \<Rightarrow> Transaction list
     \<Rightarrow> error option \<times> Transaction list" where
  "push_page address options [] allTransactions = (None, allTransactions)"
| "push_page address options (tx # txs) allTransactions =
     (case parseTransaction tx address of
        Inl e \<Rightarrow> (Some e, allTransactions)
      | Inr parsedTx \<Rightarrow>
          if date_filtered options parsedTx then push_page address options txs allTransactions
          else push_page address options txs (allTransactions @ [parsedTx]))"

text \<open>
  The connected client is its \<open>searchTx\<close>: the page number and the page size give the
  records of that page, or the request throws. The state of the \<open>while\<close> loop carries, next
  to the variables of the code, the page numbers requested so far.
\<close>

type_synonym SearchTx = "nat \<Rightarrow> nat \<Rightarrow> error + RawTx list"

record loop_state =
  hasMore :: bool
  cur_offset :: nat
  allTransactions :: "Transaction list"
  requested :: "nat list"

definition requested_limit :: "FetchOptions option \<Rightarrow> nat option" where
  "requested_limit options =
     (case options of
        None \<Rightarrow> None
      | Some opts \<Rightarrow> (case limit opts of None \<Rightarrow> None | Some n \<Rightarrow> if n = 0 then None else Some n))"

definition page_size :: "FetchOptions option \<Rightarrow> nat" where
  "page_size options = (case requested_limit options of None \<Rightarrow> 100 | Some n \<Rightarrow> n)"

definition start_offset :: "FetchOptions option \<Rightarrow> nat" where
  "start_offset options =
     (case options of None \<Rightarrow> 0 | Some opts \<Rightarrow> (case offset opts of None \<Rightarrow> 0 | Some n \<Rightarrow> n))"

definition loop_body :: "SearchTx \<Rightarrow> string \<Rightarrow> FetchOptions option \<Rightarrow> loop_state \<Rightarrow> loop_state" where
  "loop_body searchTx address options st =
     (let lim = page_size options;
          page = cur_offset st div lim + 1;
          st1 = st\<lparr>requested := requested st @ [page]\<rparr>
      in case searchTx page lim of
           Inl e \<Rightarrow> st1\<lparr>hasMore := False\<rparr>
         | Inr txs \<Rightarrow>
             if length txs = 0 then st1\<lparr>hasMore := False\<rparr>
             else (case push_page address options txs (allTransactions st) of
                     (Some e, pushed) \<Rightarrow> st1\<lparr>allTransactions := pushed, hasMore := False\<rparr>
                   | (None, pushed) \<Rightarrow>
                       (let st2 = st1\<lparr>allTransactions := pushed\<rparr>;
                            st3 = (if length txs < lim then st2\<lparr>hasMore := False\<rparr>
                                   else st2\<lparr>cur_offset := cur_offset st2 + lim\<rparr>)
                        in case requested_limit options of
                             None \<Rightarrow> st3
                           | Some n \<Rightarrow> if n \<le> length pushed then st3\<lparr>hasMore := False\<rparr> else st3)))"

text \<open>
  \<open>while (hasMore) { ... }\<close>. The loop runs as long as the ledger answers full pages, so
  it is a partial function: \<open>None\<close> is a run that never returns.
\<close>

partial_function (option) while_hasMore ::
  "SearchTx \<Rightarrow> string \<Rightarrow> FetchOptions option \<Rightarrow> loop_state \<Rightarrow> loop_state option" where
  "while_hasMore searchTx address options st =
     (if hasMore st then while_hasMore searchTx address options (loop_body searchTx address options st)
      else Some st)"

text \<open>
  \<open>fetchTransactions\<close>. \<open>client\<close> is \<open>None\<close> before \<open>initialize\<close>. The result gives what
  the caller sees, the exception or the list, and the page numbers that were requested.
\<close>

definition fetchTransactions ::
  "SearchTx option \<Rightarrow> string \<Rightarrow> FetchOptions option \<Rightarrow> ((error + Transaction list) \<times> nat list) option" where
  "fetchTransactions client address options =
     (case client of
        None \<Rightarrow> Some (Inl (Error ''Client not initialized. Call initialize() first.''), [])
      | Some searchTx \<Rightarrow>
          if \<not> validateAddress address then Some (Inl (Error ''Invalid Osmosis address format''), [])
          else map_option (\<lambda>st. (Inr (allTransactions st), requested st))
                 (while_hasMore searchTx address options
                    \<lparr>hasMore = True, cur_offset = start_offset options,
                     allTransactions = [], requested = []\<rparr>))"

text \<open>
  The mocked ledger of the unit tests (src/unnamed/part_003) and of the pagination property:
  it serves the given pages by page number and an empty page beyond them.
\<close>

definition mock_searchTx :: "RawTx list list \<Rightarrow> SearchTx" where
  "mock_searchTx pages page per_page =
     (if 1 \<le> page \<and> page \<le> length pages then Inr (pages ! (page - 1)) else Inr [])"

text \<open>The same mock, with a request that throws once the pages are used up.\<close>

definition mock_searchTx_failing :: "RawTx list list \<Rightarrow> error \<Rightarrow> SearchTx" where
  "mock_searchTx_failing pages e page per_page =
     (if 1 \<le> page \<and> page \<le> length pages then Inr (pages ! (page - 1)) else Inl e)"

text \<open>A raw record with no message and no fee, as small as a record can be.\<close>

definition bare_tx :: "string \<Rightarrow> RawTx" where
  "bare_tx h = \<lparr>raw_hash = h, height = 1000, code = 0, body_messages = None, body_memo = None,
                authInfo_fee = None\<rparr>"

section \<open>Report exporter (src/unnamed/part_002, class CSVExporter)\<close>

record AwakenTaxRow =
  Date :: string
  Type :: string
  Buy_Amount :: string
  Buy_Currency :: string
  Sell_Amount :: string
  Sell_Currency :: string
  Fee_Amount :: string
  Fee_Currency :: string
  Exchange :: string
  Transaction_ID :: string

fun mapTransactionType :: "TransactionType \<Rightarrow> string" where
  "mapTransactionType Swap = ''Trade''"
| "mapTransactionType Transfer = ''Transfer''"
| "mapTransactionType Stake = ''Stake''"
| "mapTransactionType Unstake = ''Unstake''"
| "mapTransactionType Claim_rewards = ''Income''"
| "mapTransactionType Provide_liquidity = ''Trade''"
| "mapTransactionType Remove_liquidity = ''Trade''"
| "mapTransactionType Vote = ''Other''"
| "mapTransactionType Unknown = ''Other''"

definition mapSwap :: "Transaction \<Rightarrow> AwakenTaxRow \<Rightarrow> AwakenTaxRow" where
  "mapSwap tx row =
     (case amounts tx of
        a0 # a1 # _ \<Rightarrow>
          row\<lparr>Sell_Amount := value' a0, Sell_Currency := symbol a0,
              Buy_Amount := value' a1, Buy_Currency := symbol a1\<rparr>
      | [a0] \<Rightarrow> row\<lparr>Sell_Amount := value' a0, Sell_Currency := symbol a0\<rparr>
      | [] \<Rightarrow> row)"

definition mapTransfer :: "Transaction \<Rightarrow> AwakenTaxRow \<Rightarrow> AwakenTaxRow" where
  "mapTransfer tx row =
     (case amounts tx of
        a0 # _ \<Rightarrow> row\<lparr>Sell_Amount := value' a0, Sell_Currency := symbol a0\<rparr>
      | [] \<Rightarrow> row)"

definition mapStake :: "Transaction \<Rightarrow> AwakenTaxRow \<Rightarrow> AwakenTaxRow" where
  "mapStake tx row =
     (case amounts tx of
        a0 # _ \<Rightarrow> row\<lparr>Sell_Amount := value' a0, Sell_Currency := symbol a0\<rparr>
      | [] \<Rightarrow> row)"

definition mapUnstake :: "Transaction \<Rightarrow> AwakenTaxRow \<Rightarrow> AwakenTaxRow" where
  "mapUnstake tx row =
     (case amounts tx of
        a0 # _ \<Rightarrow> row\<lparr>Buy_Amount := value' a0, Buy_Currency := symbol a0\<rparr>
      | [] \<Rightarrow> row)"

definition mapClaimRewards :: "Transaction \<Rightarrow> AwakenTaxRow \<Rightarrow> AwakenTaxRow" where
  "mapClaimRewards tx row =
     (case amounts tx of
        a0 # _ \<Rightarrow> row\<lparr>Buy_Amount := value' a0, Buy_Currency := symbol a0\<rparr>
      | [] \<Rightarrow> row)"

definition mapProvideLiquidity :: "Transaction \<Rightarrow> AwakenTaxRow \<Rightarrow> AwakenTaxRow" where
  "mapProvideLiquidity tx row =
     (if 0 < length (amounts tx)
      then row\<lparr>Sell_Amount := join ''+'' (map value' (amounts tx)),
               Sell_Currency := join ''+'' (map symbol (amounts tx))\<rparr>
      else row)"

definition mapRemoveLiquidity :: "Transaction \<Rightarrow> AwakenTaxRow \<Rightarrow> AwakenTaxRow" where
  "mapRemoveLiquidity tx row =
     (if 0 < length (amounts tx)
      then row\<lparr>Buy_Amount := join ''+'' (map value' (amounts tx)),
               Buy_Currency := join ''+'' (map symbol (amounts tx))\<rparr>
      else row)"

definition mapToAwakenTax :: "Transaction \<Rightarrow> error + AwakenTaxRow" where
  "mapToAwakenTax tx =
     (case formatForCSV (timestamp tx) of
        Inl e \<Rightarrow> Inl e
      | Inr date \<Rightarrow>
          (let row = \<lparr>Date = date,
                      Type = mapTransactionType (tx_type tx),
                      Buy_Amount = '''',
                      Buy_Currency = '''',
                      Sell_Amount = '''',
                      Sell_Currency = '''',
                      Fee_Amount = value' (fee tx),
                      Fee_Currency = symbol (fee tx),
                      Exchange = ''Osmosis'',
                      Transaction_ID = hash tx\<rparr>
           in Inr (case tx_type tx of
                     Swap \<Rightarrow> mapSwap tx row
                   | Transfer \<Rightarrow> mapTransfer tx row
                   | Stake \<Rightarrow> mapStake tx row
                   | Unstake \<Rightarrow> mapUnstake tx row
                   | Claim_rewards \<Rightarrow> mapClaimRewards tx row
                   | Provide_liquidity \<Rightarrow> mapProvideLiquidity tx row
                   | Remove_liquidity \<Rightarrow> mapRemoveLiquidity tx row
                   | _ \<Rightarrow> row)))"

definition escapeCSVField :: "string \<Rightarrow> string" where
  "escapeCSVField field =
     (if CHR '','' \<in> set field \<or> CHR 0x22 \<in> set field \<or> CHR 0x0A \<in> set field
      then [CHR 0x22] @ concat (map (\<lambda>c. if c = CHR 0x22 then [CHR 0x22, CHR 0x22] else [c]) field)
           @ [CHR 0x22]
      else field)"

definition headers :: "string list" where
  "headers = [''Date'', ''Type'', ''Buy Amount'', ''Buy Currency'', ''Sell Amount'',
              ''Sell Currency'', ''Fee Amount'', ''Fee Currency'', ''Exchange'', ''Transaction ID'']"

text \<open>\<open>row[header]\<close> for the headers in their order.\<close>

definition row_values :: "AwakenTaxRow \<Rightarrow> string list" where
  "row_values row = [Date row, Type row, Buy_Amount row, Buy_Currency row, Sell_Amount row,
                     Sell_Currency row, Fee_Amount row, Fee_Currency row, Exchange row,
                     Transaction_ID row]"

definition generateCSV :: "AwakenTaxRow list \<Rightarrow> string" where
  "generateCSV rows =
     (let headerRow = join '','' (map escapeCSVField headers);
          dataRows = map (\<lambda>row. join '','' (map (\<lambda>v. escapeCSVField (or_else (Some v) [])) (row_values row))) rows
      in join [CHR 0x0A] (headerRow # dataRows))"

text \<open>\<open>transactions.map(tx => this.mapToAwakenTax(tx))\<close>: the first exception ends the map.\<close>

fun map_rows :: "Transaction list \<Rightarrow> error + AwakenTaxRow list" where
  "map_rows [] = Inr []"
| "map_rows (tx # txs) =
     (case mapToAwakenTax tx of
        Inl e \<Rightarrow> Inl e
      | Inr r \<Rightarrow> (case map_rows txs of Inl e \<Rightarrow> Inl e | Inr rs \<Rightarrow> Inr (r # rs)))"

definition exportToAwakenTax :: "Transaction list \<Rightarrow> error + string" where
  "exportToAwakenTax transactions =
     (case map_rows transactions of Inl e \<Rightarrow> Inl e | Inr rows \<Rightarrow> Inr (generateCSV rows))"

text \<open>
  The quoting of a field in the words of the specification: every double quote of the field
  is doubled. \<open>escapeCSVField\<close> is compared with it.
\<close>

fun doubled_quotes :: "string \<Rightarrow> string" where
  "doubled_quotes [] = []"
| "doubled_quotes (c # cs) =
     (if c = CHR 0x22 then CHR 0x22 # CHR 0x22 # doubled_quotes cs else c # doubled_quotes cs)"

section \<open>Evaluation on concrete inputs\<close>

lemma replicate_numeral: "replicate (numeral k) x = x # replicate (pred_numeral k) x"
  by (simp add: numeral_eq_Suc)

lemmas bigint_eval =
  BigInt_of_string_def StringToBigInt_def trim_def is_space_def parse_radix_def digit_val_def
  BigInt_toString_def digits_of.simps digit_char_def bigint_div_def bigint_rem_def

lemmas amount_eval =
  bigint_eval fromBaseUnits_def toBaseUnits_def formatAmount_def decimal_string_def
  padStart_def padEnd_def strip_trailing_zeros_def or_else_def replicate_numeral Let_def
  getDecimals_def object_prototype_keys_def denomToSymbol_def toUpperCase_def upper_char_def

lemma BigInt_pow10_6: "BigInt_pow10 6 = Inr 1000000"
  by (simp add: BigInt_pow10_def Number_of_nat_def bitlen.simps)

section \<open>Digits\<close>

lemma digit_char_digit: "n < 10 \<Longrightarrow> digit_char n \<in> set ''0123456789''"
proof -
  assume "n < 10"
  then have "''0123456789'' ! n \<in> set ''0123456789''"
    by (intro nth_mem) simp
  then show ?thesis by (simp only: digit_char_def)
qed

lemma digits_of_digits: "set (digits_of n) \<subseteq> set ''0123456789''"
proof (induction n rule: digits_of.induct)
  case (1 n)
  show ?case
  proof (cases "n < 10")
    case True
    then show ?thesis
      using digit_char_digit [of n] by (subst digits_of.simps) simp
  next
    case False
    have "n mod 10 < 10" by simp
    then have "digit_char (n mod 10) \<in> set ''0123456789''" by (rule digit_char_digit)
    with False 1 show ?thesis
      by (subst digits_of.simps) simp
  qed
qed

lemma BigInt_toString_no_dot: "CHR ''.'' \<notin> set (BigInt_toString i)"
  using digits_of_digits [of "nat i"] digits_of_digits [of "nat (- i)"]
  by (auto simp: BigInt_toString_def)

section \<open>Base units to decimal\<close>

lemma decimal_string_whole:
  "bigint_rem n p = 0 \<Longrightarrow> decimal_string n p d = BigInt_toString (bigint_div n p)"
  by (simp add: decimal_string_def)

text \<open>
  C2. With six decimal places the conversion from base units gives the vectors of the
  specification, in \<open>formatAmount\<close> and in \<open>fromBaseUnits\<close> alike: 1000000 is 1, 1234567 is
  1.234567, 1500000 is 1.5, 0 is 0 and 1 is 0.000001. An amount whose remainder on division
  by a million is zero is written as the integer quotient alone, with no decimal point.
\<close>

theorem base_units_to_decimal_vectors:
  "formatAmount ''1000000'' ''uosmo'' = Inr ''1'' \<and>
   formatAmount ''1234567'' ''uosmo'' = Inr ''1.234567'' \<and>
   formatAmount ''1500000'' ''uosmo'' = Inr ''1.5'' \<and>
   formatAmount ''0'' ''uosmo'' = Inr ''0'' \<and>
   formatAmount ''1'' ''uosmo'' = Inr ''0.000001'' \<and>
   fromBaseUnits ''1000000'' 6 = Inr ''1'' \<and>
   fromBaseUnits ''1234567'' 6 = Inr ''1.234567'' \<and>
   fromBaseUnits ''1500000'' 6 = Inr ''1.5'' \<and>
   fromBaseUnits ''0'' 6 = Inr ''0'' \<and>
   fromBaseUnits ''1'' 6 = Inr ''0.000001'' \<and>
   (BigInt_of_string x = Inr n \<and> bigint_rem n 1000000 = 0 \<longrightarrow>
      fromBaseUnits x 6 = Inr (BigInt_toString (bigint_div n 1000000)) \<and>
      formatAmount x ''uosmo'' = Inr (BigInt_toString (bigint_div n 1000000)) \<and>
      CHR ''.'' \<notin> set (BigInt_toString (bigint_div n 1000000)))"
proof -
  have f1: "formatAmount ''1000000'' ''uosmo'' = Inr ''1''"
    by (simp add: amount_eval BigInt_pow10_6 cong: let_weak_cong)
  have f2: "formatAmount ''1234567'' ''uosmo'' = Inr ''1.234567''"
    by (simp add: amount_eval BigInt_pow10_6 cong: let_weak_cong)
  have f3: "formatAmount ''1500000'' ''uosmo'' = Inr ''1.5''"
    by (simp add: amount_eval BigInt_pow10_6 cong: let_weak_cong)
  have f4: "formatAmount ''0'' ''uosmo'' = Inr ''0''"
    by (simp add: amount_eval BigInt_pow10_6 cong: let_weak_cong)
  have f5: "formatAmount ''1'' ''uosmo'' = Inr ''0.000001''"
    by (simp add: amount_eval BigInt_pow10_6 cong: let_weak_cong)
  have b1: "fromBaseUnits ''1000000'' 6 = Inr ''1''"
    by (simp add: amount_eval BigInt_pow10_6 cong: let_weak_cong)
  have b2: "fromBaseUnits ''1234567'' 6 = Inr ''1.234567''"
    by (simp add: amount_eval BigInt_pow10_6 cong: let_weak_cong)
  have b3: "fromBaseUnits ''1500000'' 6 = Inr ''1.5''"
    by (simp add: amount_eval BigInt_pow10_6 cong: let_weak_cong)
  have b4: "fromBaseUnits ''0'' 6 = Inr ''0''"
    by (simp add: amount_eval BigInt_pow10_6 cong: let_weak_cong)
  have b5: "fromBaseUnits ''1'' 6 = Inr ''0.000001''"
    by (simp add: amount_eval BigInt_pow10_6 cong: let_weak_cong)
  have g: "BigInt_of_string x = Inr n \<and> bigint_rem n 1000000 = 0 \<longrightarrow>
      fromBaseUnits x 6 = Inr (BigInt_toString (bigint_div n 1000000)) \<and>
      formatAmount x ''uosmo'' = Inr (BigInt_toString (bigint_div n 1000000)) \<and>
      CHR ''.'' \<notin> set (BigInt_toString (bigint_div n 1000000))"
    by (simp add: fromBaseUnits_def formatAmount_def getDecimals_def BigInt_pow10_6
        decimal_string_whole BigInt_toString_no_dot)
  from f1 f2 f3 f4 f5 b1 b2 b3 b4 b5 g show ?thesis by blast
qed

theorem base_units_to_decimal_vectors_witness:
  "BigInt_of_string ''3000000'' = Inr 3000000 \<and> bigint_rem 3000000 1000000 = 0 \<and>
   fromBaseUnits ''3000000'' 6 = Inr ''3'' \<and> formatAmount ''3000000'' ''uosmo'' = Inr ''3'' \<and>
   CHR ''.'' \<notin> set ''3''"
proof -
  have h: "BigInt_of_string ''3000000'' = Inr 3000000 \<and> bigint_rem 3000000 1000000 = 0"
    by (simp add: bigint_eval)
  have v: "BigInt_toString (bigint_div 3000000 1000000) = ''3''"
    by (simp add: bigint_eval)
  show ?thesis
    using h v base_units_to_decimal_vectors [of "''3000000''" 3000000] by simp
qed

section \<open>Address validation\<close>

lemma regex_test_literals:
  "regex_test (map Lit p @ rest) s \<longleftrightarrow> (\<exists>t. s = p @ t \<and> regex_test rest t)"
proof (induction p arbitrary: s)
  case Nil
  show ?case by simp
next
  case (Cons a p)
  show ?case
  proof (cases s)
    case Nil
    then show ?thesis
      by (cases rest) simp_all
  next
    case (Cons c cs)
    with Cons.IH [of cs] show ?thesis by auto
  qed
qed

lemma regex_test_replicate:
  "regex_test (replicate n a) s \<longleftrightarrow> length s = n \<and> (\<forall>c\<in>set s. atom_matches a c)"
proof (induction n arbitrary: s)
  case 0
  show ?case by auto
next
  case (Suc n)
  show ?case
  proof (cases s)
    case Nil
    then show ?thesis by simp
  next
    case (Cons c cs)
    with Suc [of cs] show ?thesis by auto
  qed
qed

lemma of_char_in_set: "c \<in> set cs \<longleftrightarrow> (of_char c :: nat) \<in> of_char ` set cs"
  by (auto simp: image_iff)

lemma lower_alnum_class:
  "atom_matches (Class [(CHR ''a'', CHR ''z''), (CHR ''0'', CHR ''9'')]) c
     \<longleftrightarrow> c \<in> set ''abcdefghijklmnopqrstuvwxyz0123456789''"
proof -
  have "(97 \<le> (of_char c :: nat) \<and> (of_char c :: nat) \<le> 122) \<or>
        (48 \<le> (of_char c :: nat) \<and> (of_char c :: nat) \<le> 57)
          \<longleftrightarrow> (of_char c :: nat) \<in> of_char ` set ''abcdefghijklmnopqrstuvwxyz0123456789''"
    by (simp del: of_char_eq_iff) arith
  then show ?thesis
    by (subst of_char_in_set) simp
qed

lemma startsWith_append: "startsWith (p @ t) p"
  by (induction p) simp_all

lemma validateAddress_iff:
  "validateAddress a \<longleftrightarrow>
      (\<exists>body. a = ''osmo'' @ body \<and> length body = 39 \<and>
         (\<forall>c\<in>set body. c \<in> set ''abcdefghijklmnopqrstuvwxyz0123456789''))"
  unfolding validateAddress_def osmosisAddressRegex_def regex_test_literals
    regex_test_replicate lower_alnum_class ..

text \<open>
  C3. \<open>validateAddress\<close> holds exactly for \<open>osmo\<close> followed by 39 characters, each a lower
  case letter or a digit, 43 characters in all. So it fails on any other length, on any
  other prefix, on any character outside the class (upper case, punctuation, white space)
  and on the empty string.
\<close>

theorem validateAddress_exact:
  "(validateAddress a \<longleftrightarrow>
      (\<exists>body. a = ''osmo'' @ body \<and> length body = 39 \<and>
         (\<forall>c\<in>set body. c \<in> set ''abcdefghijklmnopqrstuvwxyz0123456789''))) \<and>
   (length a \<noteq> 43 \<longrightarrow> \<not> validateAddress a) \<and>
   (\<not> startsWith a ''osmo'' \<longrightarrow> \<not> validateAddress a) \<and>
   ((\<exists>c\<in>set a. c \<notin> set ''abcdefghijklmnopqrstuvwxyz0123456789'') \<longrightarrow> \<not> validateAddress a) \<and>
   \<not> validateAddress [] \<and>
   (a \<noteq> [] \<and> (\<forall>c\<in>set a. is_space c) \<longrightarrow> \<not> validateAddress a)"
proof -
  define L where "L = set ''abcdefghijklmnopqrstuvwxyz0123456789''"
  have char: "validateAddress a \<longleftrightarrow>
      (\<exists>body. a = ''osmo'' @ body \<and> length body = 39 \<and> (\<forall>c\<in>set body. c \<in> L))"
    unfolding L_def by (rule validateAddress_iff)
  have osmo: "set ''osmo'' \<subseteq> L"
    by (simp add: L_def)
  have len: "length a \<noteq> 43 \<longrightarrow> \<not> validateAddress a"
    unfolding char by auto
  have pre: "\<not> startsWith a ''osmo'' \<longrightarrow> \<not> validateAddress a"
    unfolding char using startsWith_append [of "''osmo''"] by blast
  have cls: "(\<exists>c\<in>set a. c \<notin> L) \<longrightarrow> \<not> validateAddress a"
  proof (intro impI notI)
    assume ex: "\<exists>c\<in>set a. c \<notin> L" and "validateAddress a"
    then obtain body where "a = ''osmo'' @ body" and "\<forall>c\<in>set body. c \<in> L"
      unfolding char by blast
    then have "set a \<subseteq> L"
      using osmo by (simp only: set_append) blast
    with ex show False by blast
  qed
  have emp: "\<not> validateAddress []"
    by (simp add: validateAddress_iff)
  have sp: "a \<noteq> [] \<and> (\<forall>c\<in>set a. is_space c) \<longrightarrow> \<not> validateAddress a"
  proof (intro impI)
    assume h: "a \<noteq> [] \<and> (\<forall>c\<in>set a. is_space c)"
    then obtain c where c: "c \<in> set a" by (cases a) auto
    with h have "is_space c" by blast
    then have "c \<notin> L"
      by (auto simp: is_space_def L_def)
    with c cls show "\<not> validateAddress a" by blast
  qed
  from char len pre cls emp sp show ?thesis
    unfolding L_def by blast
qed

theorem validateAddress_exact_witness:
  "validateAddress ''osmo1qypqxpq9qcrsszg2pvxq6rs0zqg3yyc5lzv7xu'' \<and>
   length ''osmo1qypqxpq9qcrsszg2pvxq6rs0zqg3yyc5lzv7x'' \<noteq> (43::nat) \<and>
   \<not> validateAddress ''osmo1qypqxpq9qcrsszg2pvxq6rs0zqg3yyc5lzv7x'' \<and>
   \<not> startsWith ''cosmos1qypqxpq9qcrsszg2pvxq6rs0zqg3yyc5lzv7'' ''osmo'' \<and>
   \<not> validateAddress ''cosmos1qypqxpq9qcrsszg2pvxq6rs0zqg3yyc5lzv7'' \<and>
   \<not> validateAddress ''osmo1QYPQXPQ9QCRSSZG2PVXQ6RS0ZQG3YYC5LZV7XU'' \<and>
   \<not> validateAddress ''   ''"
proof -
  have ex: "\<exists>body. ''osmo1qypqxpq9qcrsszg2pvxq6rs0zqg3yyc5lzv7xu'' = ''osmo'' @ body \<and>
      length body = 39 \<and> (\<forall>c\<in>set body. c \<in> set ''abcdefghijklmnopqrstuvwxyz0123456789'')"
    by (rule exI [of _ "''1qypqxpq9qcrsszg2pvxq6rs0zqg3yyc5lzv7xu''"]) simp
  have a: "validateAddress ''osmo1qypqxpq9qcrsszg2pvxq6rs0zqg3yyc5lzv7xu''"
    using ex validateAddress_exact [of "''osmo1qypqxpq9qcrsszg2pvxq6rs0zqg3yyc5lzv7xu''"]
    by (elim conjE) (rule iffD2)
  have l: "length ''osmo1qypqxpq9qcrsszg2pvxq6rs0zqg3yyc5lzv7x'' \<noteq> (43::nat)"
    by simp
  have b: "\<not> validateAddress ''osmo1qypqxpq9qcrsszg2pvxq6rs0zqg3yyc5lzv7x''"
    using l validateAddress_exact [of "''osmo1qypqxpq9qcrsszg2pvxq6rs0zqg3yyc5lzv7x''"]
    by (elim conjE) (erule mp)
  have p: "\<not> startsWith ''cosmos1qypqxpq9qcrsszg2pvxq6rs0zqg3yyc5lzv7'' ''osmo''"
    by simp
  have c: "\<not> validateAddress ''cosmos1qypqxpq9qcrsszg2pvxq6rs0zqg3yyc5lzv7''"
    using p validateAddress_exact [of "''cosmos1qypqxpq9qcrsszg2pvxq6rs0zqg3yyc5lzv7''"]
    by (elim conjE) (erule mp)
  have u: "\<exists>c\<in>set ''osmo1QYPQXPQ9QCRSSZG2PVXQ6RS0ZQG3YYC5LZV7XU''.
             c \<notin> set ''abcdefghijklmnopqrstuvwxyz0123456789''"
    by (rule bexI [of _ "CHR ''Q''"]) simp_all
  have d: "\<not> validateAddress ''osmo1QYPQXPQ9QCRSSZG2PVXQ6RS0ZQG3YYC5LZV7XU''"
    using u validateAddress_exact [of "''osmo1QYPQXPQ9QCRSSZG2PVXQ6RS0ZQG3YYC5LZV7XU''"]
    by (elim conjE) (erule mp)
  have w: "''   '' \<noteq> [] \<and> (\<forall>c\<in>set ''   ''. is_space c)"
    by (simp add: is_space_def)
  have e: "\<not> validateAddress ''   ''"
    using w validateAddress_exact [of "''   ''"]
    by (elim conjE) (erule mp, erule conjI)
  from a l b p c d e show ?thesis by (intro conjI)
qed

section \<open>Classifying messages\<close>

lemma getDecimals_six: "dn \<notin> set object_prototype_keys \<Longrightarrow> getDecimals dn = Some 6"
  by (auto simp: getDecimals_def split: option.splits dest: map_of_SomeD)

lemma formatAmount_ok:
  "BigInt_of_string v = Inr n \<Longrightarrow> d \<notin> set object_prototype_keys \<Longrightarrow>
     formatAmount v d = Inr (decimal_string n 1000000 6)"
  by (simp add: formatAmount_def getDecimals_six BigInt_pow10_6)

lemma formatAmount_syntax_error:
  "BigInt_of_string v = Inl e \<Longrightarrow> formatAmount v d = Inl e"
  by (simp add: formatAmount_def)

lemma parseAmount_uosmo_5000000:
  "parseAmount (Some \<lparr>raw_denom = Some ''uosmo'', raw_amount = Some ''5000000''\<rparr>) =
     Inr \<lparr>value' = ''5'', denom = ''uosmo'', symbol = ''OSMO''\<rparr>"
  by (simp add: parseAmount_def amount_eval BigInt_pow10_6 cong: let_weak_cong)

text \<open>
  C6. \<open>parseMessages\<close> reads the first message only. When the first pattern its type
  identifier matches is \<open>MsgSend\<close> and its amount list is one coin of 5000000 uosmo, the
  result is a transfer of 5 OSMO. A missing or empty message list, and a first message whose
  type identifier contains none of the patterns, give the type unknown with no amounts.
\<close>

theorem parseMessages_first_message:
  "parseMessages (Some (m # rest)) address = parseMessages (Some [m]) address \<and>
   (includes_str (msgType_of m) ''MsgSend'' \<and>
    \<not> includes_str (msgType_of m) ''MsgSwapExactAmountIn'' \<and>
    \<not> includes_str (msgType_of m) ''MsgSwapExactAmountOut'' \<and>
    amount m = CoinList [Some \<lparr>raw_denom = Some ''uosmo'', raw_amount = Some ''5000000''\<rparr>]
      \<longrightarrow> parseMessages (Some [m]) address =
            Inr (Transfer, [\<lparr>value' = ''5'', denom = ''uosmo'', symbol = ''OSMO''\<rparr>])) \<and>
   parseMessages None address = Inr (Unknown, []) \<and>
   parseMessages (Some []) address = Inr (Unknown, []) \<and>
   ((\<forall>p\<in>set [''MsgSwapExactAmountIn'', ''MsgSwapExactAmountOut'', ''MsgSend'', ''MsgDelegate'',
               ''MsgUndelegate'', ''MsgWithdrawDelegatorReward'', ''MsgJoinPool'', ''JoinPool'',
               ''MsgExitPool'', ''ExitPool'', ''MsgVote'']. \<not> includes_str (msgType_of m) p)
      \<longrightarrow> parseMessages (Some (m # rest)) address = Inr (Unknown, []))"
proof -
  have first: "parseMessages (Some (m # rest)) address = parseMessages (Some [m]) address"
    by (simp add: parseMessages_def)
  have send: "parseMessages (Some [m]) address =
      Inr (Transfer, [\<lparr>value' = ''5'', denom = ''uosmo'', symbol = ''OSMO''\<rparr>])"
    if "includes_str (msgType_of m) ''MsgSend''"
      and "\<not> includes_str (msgType_of m) ''MsgSwapExactAmountIn''"
      and "\<not> includes_str (msgType_of m) ''MsgSwapExactAmountOut''"
      and "amount m = CoinList [Some \<lparr>raw_denom = Some ''uosmo'', raw_amount = Some ''5000000''\<rparr>]"
    using that by (simp add: parseMessages_def parseMsgSend_def parseAmount_uosmo_5000000)
  have none: "parseMessages None address = Inr (Unknown, [])"
    and empty: "parseMessages (Some []) address = Inr (Unknown, [])"
    by (simp_all add: parseMessages_def)
  have other: "parseMessages (Some (m # rest)) address = Inr (Unknown, [])"
    if "\<forall>p\<in>set [''MsgSwapExactAmountIn'', ''MsgSwapExactAmountOut'', ''MsgSend'', ''MsgDelegate'',
               ''MsgUndelegate'', ''MsgWithdrawDelegatorReward'', ''MsgJoinPool'', ''JoinPool'',
               ''MsgExitPool'', ''ExitPool'', ''MsgVote'']. \<not> includes_str (msgType_of m) p"
    using that by (simp add: parseMessages_def)
  from first send none empty other show ?thesis by blast
qed

theorem parseMessages_first_message_witness:
  "parseMessages
     (Some [\<lparr>at_type = Some ''/cosmos.bank.v1beta1.MsgSend'', typeUrl = None, tokenIn = None,
             tokenOutMinAmount = None, routes = None, tokenInMaxAmount = None, tokenOut = None,
             amount = CoinList [Some \<lparr>raw_denom = Some ''uosmo'', raw_amount = Some ''5000000''\<rparr>],
             tokensIn = None, tokensOut = None\<rparr>]) ''osmo1test'' =
     Inr (Transfer, [\<lparr>value' = ''5'', denom = ''uosmo'', symbol = ''OSMO''\<rparr>]) \<and>
   parseMessages
     (Some [\<lparr>at_type = Some ''/unknown.module.MsgUnknown'', typeUrl = None, tokenIn = None,
             tokenOutMinAmount = None, routes = None, tokenInMaxAmount = None, tokenOut = None,
             amount = NoAmount, tokensIn = None, tokensOut = None\<rparr>]) ''osmo1test'' =
     Inr (Unknown, [])"
proof -
  have a: "parseMessages
     (Some [\<lparr>at_type = Some ''/cosmos.bank.v1beta1.MsgSend'', typeUrl = None, tokenIn = None,
             tokenOutMinAmount = None, routes = None, tokenInMaxAmount = None, tokenOut = None,
             amount = CoinList [Some \<lparr>raw_denom = Some ''uosmo'', raw_amount = Some ''5000000''\<rparr>],
             tokensIn = None, tokensOut = None\<rparr>]) ''osmo1test'' =
     Inr (Transfer, [\<lparr>value' = ''5'', denom = ''uosmo'', symbol = ''OSMO''\<rparr>])"
    using parseMessages_first_message
      [of "\<lparr>at_type = Some ''/cosmos.bank.v1beta1.MsgSend'', typeUrl = None, tokenIn = None,
             tokenOutMinAmount = None, routes = None, tokenInMaxAmount = None, tokenOut = None,
             amount = CoinList [Some \<lparr>raw_denom = Some ''uosmo'', raw_amount = Some ''5000000''\<rparr>],
             tokensIn = None, tokensOut = None\<rparr>" "[]" "''osmo1test''"]
    by (simp add: msgType_of_def or_else_def)
  have b: "parseMessages
     (Some [\<lparr>at_type = Some ''/unknown.module.MsgUnknown'', typeUrl = None, tokenIn = None,
             tokenOutMinAmount = None, routes = None, tokenInMaxAmount = None, tokenOut = None,
             amount = NoAmount, tokensIn = None, tokensOut = None\<rparr>]) ''osmo1test'' =
     Inr (Unknown, [])"
    using parseMessages_first_message
      [of "\<lparr>at_type = Some ''/unknown.module.MsgUnknown'', typeUrl = None, tokenIn = None,
             tokenOutMinAmount = None, routes = None, tokenInMaxAmount = None, tokenOut = None,
             amount = NoAmount, tokensIn = None, tokensOut = None\<rparr>" "[]" "''osmo1test''"]
    by (simp add: msgType_of_def or_else_def)
  from a b show ?thesis by (rule conjI)
qed

section \<open>Amounts and fees with missing fields\<close>

lemma parseAmount_Some:
  "BigInt_of_string (or_else (raw_amount c) ''0'') = Inr n \<Longrightarrow>
   or_else (raw_denom c) ''unknown'' \<notin> set object_prototype_keys \<Longrightarrow>
   parseAmount (Some c) =
     Inr \<lparr>value' = decimal_string n 1000000 6, denom = or_else (raw_denom c) ''unknown'',
          symbol = denomToSymbol (or_else (raw_denom c) ''unknown'')\<rparr>"
  by (simp add: parseAmount_def formatAmount_ok Let_def)

lemma parseAmount_Some_error:
  "BigInt_of_string (or_else (raw_amount c) ''0'') = Inl e \<Longrightarrow> parseAmount (Some c) = Inl e"
  by (simp add: parseAmount_def formatAmount_syntax_error Let_def)

lemma BigInt_of_string_0: "BigInt_of_string ''0'' = Inr 0"
  by (simp add: bigint_eval)

lemma decimal_string_0: "decimal_string 0 1000000 6 = ''0''"
  by (simp add: decimal_string_def bigint_eval)

lemma unknown_not_inherited: "''unknown'' \<notin> set object_prototype_keys"
  by (simp add: object_prototype_keys_def)

text \<open>
  The symbol of the placeholder denomination: \<open>unknown\<close> begins with \<open>u\<close>, which
  \<open>denomToSymbol\<close> strips as a unit prefix. The unit test of the repository
  (\<open>should handle amount with missing fields\<close>) expects \<open>UNKNOWN\<close> here.
\<close>

lemma denomToSymbol_unknown: "denomToSymbol ''unknown'' = ''NKNOWN''"
  by (simp add: denomToSymbol_def toUpperCase_def upper_char_def)

lemma parseAmount_no_fields:
  "parseAmount (Some \<lparr>raw_denom = None, raw_amount = None\<rparr>) =
     Inr \<lparr>value' = ''0'', denom = ''unknown'', symbol = ''NKNOWN''\<rparr>"
  using parseAmount_Some [of "\<lparr>raw_denom = None, raw_amount = None\<rparr>" 0]
  by (simp add: or_else_def BigInt_of_string_0 decimal_string_0 unknown_not_inherited
      denomToSymbol_unknown)

text \<open>
  C10 as the claim states it fails twice. \<open>parseAmount\<close> raises on an amount object that
  lacks its \<open>denom\<close> and whose \<open>amount\<close> is the decimal string 1.5, which \<open>BigInt\<close>
  refuses; and for the object with neither field the symbol it returns is not \<open>UNKNOWN\<close>.
\<close>

theorem parseAmount_default_counterexample:
  "parseAmount (Some \<lparr>raw_denom = None, raw_amount = Some ''1.5''\<rparr>) = Inl SyntaxError \<and>
   parseAmount (Some \<lparr>raw_denom = None, raw_amount = None\<rparr>) \<noteq>
     Inr \<lparr>value' = ''0'', denom = ''unknown'', symbol = ''UNKNOWN''\<rparr>"
  by (simp add: parseAmount_no_fields)
     (simp add: parseAmount_def formatAmount_def or_else_def bigint_eval)

text \<open>
  C10, amended. \<open>parseAmount\<close> returns the default amount for \<open>null\<close> or \<open>undefined\<close>. On
  an object a missing amount reads as 0 and a missing denomination as unknown, the field that
  is present being used, and the call returns whenever \<open>BigInt\<close> accepts the amount string
  and the denomination is not the name of a member inherited from \<open>Object.prototype\<close>; the
  symbol is that of the denomination when the object has one. When \<open>BigInt\<close> refuses the
  amount string its SyntaxError reaches the caller. \<open>parseFee\<close> returns the zero fee in
  uosmo for a fee that is \<open>null\<close>, has no amount list or has an empty one.
\<close>

theorem parseAmount_parseFee_defaults:
  "parseAmount None = Inr \<lparr>value' = ''0'', denom = ''unknown'', symbol = ''UNKNOWN''\<rparr> \<and>
   (\<exists>r. parseAmount (Some \<lparr>raw_denom = None, raw_amount = None\<rparr>) = Inr r \<and>
        value' r = ''0'' \<and> denom r = ''unknown'') \<and>
   (raw_amount c = None \<and> raw_denom c = Some d \<and> d \<noteq> [] \<and> d \<notin> set object_prototype_keys \<longrightarrow>
      parseAmount (Some c) = Inr \<lparr>value' = ''0'', denom = d, symbol = denomToSymbol d\<rparr>) \<and>
   (BigInt_of_string (or_else (raw_amount c) ''0'') = Inr n \<and>
    or_else (raw_denom c) ''unknown'' \<notin> set object_prototype_keys \<longrightarrow>
      (\<exists>r. parseAmount (Some c) = Inr r \<and> value' r = decimal_string n 1000000 6 \<and>
           denom r = or_else (raw_denom c) ''unknown'')) \<and>
   (BigInt_of_string (or_else (raw_amount c) ''0'') = Inl e \<longrightarrow> parseAmount (Some c) = Inl e) \<and>
   parseFee None = Inr \<lparr>value' = ''0'', denom = ''uosmo'', symbol = ''OSMO''\<rparr> \<and>
   parseFee (Some \<lparr>fee_amount = None\<rparr>) = Inr \<lparr>value' = ''0'', denom = ''uosmo'', symbol = ''OSMO''\<rparr> \<and>
   parseFee (Some \<lparr>fee_amount = Some []\<rparr>) = Inr \<lparr>value' = ''0'', denom = ''uosmo'', symbol = ''OSMO''\<rparr>"
proof -
  have null: "parseAmount None = Inr \<lparr>value' = ''0'', denom = ''unknown'', symbol = ''UNKNOWN''\<rparr>"
    by (simp add: parseAmount_def)
  have both: "\<exists>r. parseAmount (Some \<lparr>raw_denom = None, raw_amount = None\<rparr>) = Inr r \<and>
        value' r = ''0'' \<and> denom r = ''unknown''"
    by (simp add: parseAmount_no_fields)
  have no_amount: "parseAmount (Some c) = Inr \<lparr>value' = ''0'', denom = d, symbol = denomToSymbol d\<rparr>"
    if "raw_amount c = None" "raw_denom c = Some d" "d \<noteq> []" "d \<notin> set object_prototype_keys"
    using that parseAmount_Some [of c 0]
    by (simp add: or_else_def BigInt_of_string_0 decimal_string_0)
  have accepted: "\<exists>r. parseAmount (Some c) = Inr r \<and> value' r = decimal_string n 1000000 6 \<and>
           denom r = or_else (raw_denom c) ''unknown''"
    if "BigInt_of_string (or_else (raw_amount c) ''0'') = Inr n"
      "or_else (raw_denom c) ''unknown'' \<notin> set object_prototype_keys"
    using parseAmount_Some [OF that] by simp
  have fees: "parseFee None = Inr \<lparr>value' = ''0'', denom = ''uosmo'', symbol = ''OSMO''\<rparr>"
    "parseFee (Some \<lparr>fee_amount = None\<rparr>) = Inr \<lparr>value' = ''0'', denom = ''uosmo'', symbol = ''OSMO''\<rparr>"
    "parseFee (Some \<lparr>fee_amount = Some []\<rparr>) = Inr \<lparr>value' = ''0'', denom = ''uosmo'', symbol = ''OSMO''\<rparr>"
    by (simp_all add: parseFee_def)
  from null both no_amount accepted parseAmount_Some_error [of c e] fees
  show ?thesis by blast
qed

theorem parseAmount_parseFee_defaults_witness:
  "parseAmount (Some \<lparr>raw_denom = Some ''uatom'', raw_amount = None\<rparr>) =
     Inr \<lparr>value' = ''0'', denom = ''uatom'', symbol = ''ATOM''\<rparr> \<and>
   (\<exists>r. parseAmount (Some \<lparr>raw_denom = None, raw_amount = Some ''1500000''\<rparr>) = Inr r \<and>
        value' r = ''1.5'' \<and> denom r = ''unknown'') \<and>
   parseAmount (Some \<lparr>raw_denom = Some ''uosmo'', raw_amount = Some ''abc''\<rparr>) = Inl SyntaxError"
proof -
  have a: "parseAmount (Some \<lparr>raw_denom = Some ''uatom'', raw_amount = None\<rparr>) =
     Inr \<lparr>value' = ''0'', denom = ''uatom'', symbol = ''ATOM''\<rparr>"
    using parseAmount_parseFee_defaults
      [of "\<lparr>raw_denom = Some ''uatom'', raw_amount = None\<rparr>" "''uatom''" 0 SyntaxError]
    by (simp add: object_prototype_keys_def denomToSymbol_def)
  have n: "BigInt_of_string ''1500000'' = Inr 1500000"
    by (simp add: bigint_eval)
  have v: "decimal_string 1500000 1000000 6 = ''1.5''"
    by (simp add: amount_eval cong: let_weak_cong)
  have b: "\<exists>r. parseAmount (Some \<lparr>raw_denom = None, raw_amount = Some ''1500000''\<rparr>) = Inr r \<and>
        value' r = ''1.5'' \<and> denom r = ''unknown''"
    using n v parseAmount_parseFee_defaults
      [of "\<lparr>raw_denom = None, raw_amount = Some ''1500000''\<rparr>" "''uatom''" 1500000 SyntaxError]
    by (simp add: or_else_def unknown_not_inherited)
  have s: "BigInt_of_string ''abc'' = Inl SyntaxError"
    by (simp add: bigint_eval)
  have c: "parseAmount (Some \<lparr>raw_denom = Some ''uosmo'', raw_amount = Some ''abc''\<rparr>) = Inl SyntaxError"
    using s parseAmount_parseFee_defaults
      [of "\<lparr>raw_denom = Some ''uosmo'', raw_amount = Some ''abc''\<rparr>" "''uosmo''" 0 SyntaxError]
    by (simp add: or_else_def)
  from a b c show ?thesis by (intro conjI)
qed

section \<open>Report rows\<close>

lemma mapToAwakenTax_swap2:
  "tx_type tx = Swap \<Longrightarrow> amounts tx = a0 # a1 # others \<Longrightarrow> timestamp tx = Time ms \<Longrightarrow>
   mapToAwakenTax tx =
     Inr \<lparr>Date = toISOString ms, Type = ''Trade'',
          Buy_Amount = value' a1, Buy_Currency = symbol a1,
          Sell_Amount = value' a0, Sell_Currency = symbol a0,
          Fee_Amount = value' (fee tx), Fee_Currency = symbol (fee tx),
          Exchange = ''Osmosis'', Transaction_ID = hash tx\<rparr>"
  by (simp add: mapToAwakenTax_def formatForCSV_def toISO8601_def mapSwap_def)

lemma mapToAwakenTax_swap1:
  "tx_type tx = Swap \<Longrightarrow> amounts tx = [a0] \<Longrightarrow> timestamp tx = Time ms \<Longrightarrow>
   mapToAwakenTax tx =
     Inr \<lparr>Date = toISOString ms, Type = ''Trade'',
          Buy_Amount = [], Buy_Currency = [],
          Sell_Amount = value' a0, Sell_Currency = symbol a0,
          Fee_Amount = value' (fee tx), Fee_Currency = symbol (fee tx),
          Exchange = ''Osmosis'', Transaction_ID = hash tx\<rparr>"
  by (simp add: mapToAwakenTax_def formatForCSV_def toISO8601_def mapSwap_def)

text \<open>
  C7. A swap with the two amounts 10 OSMO and 5 ATOM and the fee 0.005 OSMO, at a valid
  time, is exported as the row with Type Trade, Sell 10 OSMO, Buy 5 ATOM, Fee 0.005 OSMO,
  Exchange Osmosis and the hash as Transaction ID, and the document of that single
  transaction is generated from this row. A swap with exactly one amount fills the Sell side
  only: both Buy fields stay empty.
\<close>

theorem swap_report_row:
  "(tx_type tx = Swap \<and> timestamp tx = Time ms \<and>
    amounts tx = [a0, a1] \<and> value' a0 = ''10'' \<and> symbol a0 = ''OSMO'' \<and>
    value' a1 = ''5'' \<and> symbol a1 = ''ATOM'' \<and>
    value' (fee tx) = ''0.005'' \<and> symbol (fee tx) = ''OSMO'' \<longrightarrow>
      mapToAwakenTax tx =
        Inr \<lparr>Date = toISOString ms, Type = ''Trade'', Buy_Amount = ''5'', Buy_Currency = ''ATOM'',
             Sell_Amount = ''10'', Sell_Currency = ''OSMO'', Fee_Amount = ''0.005'',
             Fee_Currency = ''OSMO'', Exchange = ''Osmosis'', Transaction_ID = hash tx\<rparr> \<and>
      exportToAwakenTax [tx] =
        Inr (generateCSV
          [\<lparr>Date = toISOString ms, Type = ''Trade'', Buy_Amount = ''5'', Buy_Currency = ''ATOM'',
            Sell_Amount = ''10'', Sell_Currency = ''OSMO'', Fee_Amount = ''0.005'',
            Fee_Currency = ''OSMO'', Exchange = ''Osmosis'', Transaction_ID = hash tx\<rparr>])) \<and>
   (tx_type tx = Swap \<and> timestamp tx = Time ms \<and> amounts tx = [a] \<longrightarrow>
      mapToAwakenTax tx =
        Inr \<lparr>Date = toISOString ms, Type = ''Trade'', Buy_Amount = [], Buy_Currency = [],
             Sell_Amount = value' a, Sell_Currency = symbol a, Fee_Amount = value' (fee tx),
             Fee_Currency = symbol (fee tx), Exchange = ''Osmosis'', Transaction_ID = hash tx\<rparr>)"
proof -
  have two: "mapToAwakenTax tx =
        Inr \<lparr>Date = toISOString ms, Type = ''Trade'', Buy_Amount = ''5'', Buy_Currency = ''ATOM'',
             Sell_Amount = ''10'', Sell_Currency = ''OSMO'', Fee_Amount = ''0.005'',
             Fee_Currency = ''OSMO'', Exchange = ''Osmosis'', Transaction_ID = hash tx\<rparr>"
    if "tx_type tx = Swap" "timestamp tx = Time ms"
      "amounts tx = [a0, a1]" "value' a0 = ''10''" "symbol a0 = ''OSMO''"
      "value' a1 = ''5''" "symbol a1 = ''ATOM''"
      "value' (fee tx) = ''0.005''" "symbol (fee tx) = ''OSMO''"
    using that mapToAwakenTax_swap2 [of tx a0 a1 "[]" ms] by simp
  have doc: "exportToAwakenTax [tx] = Inr (generateCSV [r])" if "mapToAwakenTax tx = Inr r" for r
    using that by (simp add: exportToAwakenTax_def)
  have one: "mapToAwakenTax tx =
        Inr \<lparr>Date = toISOString ms, Type = ''Trade'', Buy_Amount = [], Buy_Currency = [],
             Sell_Amount = value' a, Sell_Currency = symbol a, Fee_Amount = value' (fee tx),
             Fee_Currency = symbol (fee tx), Exchange = ''Osmosis'', Transaction_ID = hash tx\<rparr>"
    if "tx_type tx = Swap" "timestamp tx = Time ms" "amounts tx = [a]"
    using that by (simp add: mapToAwakenTax_swap1)
  from two doc one show ?thesis by blast
qed

theorem swap_report_row_witness:
  "mapToAwakenTax
     \<lparr>hash = ''ABC123'', timestamp = Time 5000000, tx_type = Swap, status = Success,
      amounts = [\<lparr>value' = ''10'', denom = ''uosmo'', symbol = ''OSMO''\<rparr>,
                 \<lparr>value' = ''5'', denom = ''uatom'', symbol = ''ATOM''\<rparr>],
      fee = \<lparr>value' = ''0.005'', denom = ''uosmo'', symbol = ''OSMO''\<rparr>, memo = None\<rparr> =
     Inr \<lparr>Date = ''1970-01-01T01:23:20.000Z'', Type = ''Trade'', Buy_Amount = ''5'',
          Buy_Currency = ''ATOM'', Sell_Amount = ''10'', Sell_Currency = ''OSMO'',
          Fee_Amount = ''0.005'', Fee_Currency = ''OSMO'', Exchange = ''Osmosis'',
          Transaction_ID = ''ABC123''\<rparr> \<and>
   mapToAwakenTax
     \<lparr>hash = ''DEF456'', timestamp = Time 5000000, tx_type = Swap, status = Success,
      amounts = [\<lparr>value' = ''10'', denom = ''uosmo'', symbol = ''OSMO''\<rparr>],
      fee = \<lparr>value' = ''0.005'', denom = ''uosmo'', symbol = ''OSMO''\<rparr>, memo = None\<rparr> =
     Inr \<lparr>Date = ''1970-01-01T01:23:20.000Z'', Type = ''Trade'', Buy_Amount = [],
          Buy_Currency = [], Sell_Amount = ''10'', Sell_Currency = ''OSMO'',
          Fee_Amount = ''0.005'', Fee_Currency = ''OSMO'', Exchange = ''Osmosis'',
          Transaction_ID = ''DEF456''\<rparr>"
proof -
  have iso: "toISOString 5000000 = ''1970-01-01T01:23:20.000Z''"
    by (simp add: toISOString_def civil_from_days_def pad_num_def padStart_def digits_of.simps
        digit_char_def Let_def replicate_numeral cong: let_weak_cong)
  have a: "mapToAwakenTax
     \<lparr>hash = ''ABC123'', timestamp = Time 5000000, tx_type = Swap, status = Success,
      amounts = [\<lparr>value' = ''10'', denom = ''uosmo'', symbol = ''OSMO''\<rparr>,
                 \<lparr>value' = ''5'', denom = ''uatom'', symbol = ''ATOM''\<rparr>],
      fee = \<lparr>value' = ''0.005'', denom = ''uosmo'', symbol = ''OSMO''\<rparr>, memo = None\<rparr> =
     Inr \<lparr>Date = ''1970-01-01T01:23:20.000Z'', Type = ''Trade'', Buy_Amount = ''5'',
          Buy_Currency = ''ATOM'', Sell_Amount = ''10'', Sell_Currency = ''OSMO'',
          Fee_Amount = ''0.005'', Fee_Currency = ''OSMO'', Exchange = ''Osmosis'',
          Transaction_ID = ''ABC123''\<rparr>"
    using iso swap_report_row
      [of "\<lparr>hash = ''ABC123'', timestamp = Time 5000000, tx_type = Swap, status = Success,
      amounts = [\<lparr>value' = ''10'', denom = ''uosmo'', symbol = ''OSMO''\<rparr>,
                 \<lparr>value' = ''5'', denom = ''uatom'', symbol = ''ATOM''\<rparr>],
      fee = \<lparr>value' = ''0.005'', denom = ''uosmo'', symbol = ''OSMO''\<rparr>, memo = None\<rparr>" 5000000
        "\<lparr>value' = ''10'', denom = ''uosmo'', symbol = ''OSMO''\<rparr>"
        "\<lparr>value' = ''5'', denom = ''uatom'', symbol = ''ATOM''\<rparr>"]
    by simp
  have b: "mapToAwakenTax
     \<lparr>hash = ''DEF456'', timestamp = Time 5000000, tx_type = Swap, status = Success,
      amounts = [\<lparr>value' = ''10'', denom = ''uosmo'', symbol = ''OSMO''\<rparr>],
      fee = \<lparr>value' = ''0.005'', denom = ''uosmo'', symbol = ''OSMO''\<rparr>, memo = None\<rparr> =
     Inr \<lparr>Date = ''1970-01-01T01:23:20.000Z'', Type = ''Trade'', Buy_Amount = [],
          Buy_Currency = [], Sell_Amount = ''10'', Sell_Currency = ''OSMO'',
          Fee_Amount = ''0.005'', Fee_Currency = ''OSMO'', Exchange = ''Osmosis'',
          Transaction_ID = ''DEF456''\<rparr>"
    using iso swap_report_row
      [of "\<lparr>hash = ''DEF456'', timestamp = Time 5000000, tx_type = Swap, status = Success,
      amounts = [\<lparr>value' = ''10'', denom = ''uosmo'', symbol = ''OSMO''\<rparr>],
      fee = \<lparr>value' = ''0.005'', denom = ''uosmo'', symbol = ''OSMO''\<rparr>, memo = None\<rparr>" 5000000
        _ _ "\<lparr>value' = ''10'', denom = ''uosmo'', symbol = ''OSMO''\<rparr>"]
    by simp
  from a b show ?thesis by (rule conjI)
qed

text \<open>
  C9 as the claim states it fails: the lookup table sends \<open>vote\<close> to Other, so the row of
  a vote has Type Other and not Vote.
\<close>

theorem vote_type_counterexample:
  "mapToAwakenTax
     \<lparr>hash = ''ABC123'', timestamp = Time 0, tx_type = Vote, status = Success, amounts = [],
      fee = \<lparr>value' = ''0'', denom = ''uosmo'', symbol = ''OSMO''\<rparr>, memo = None\<rparr> =
     Inr \<lparr>Date = toISOString 0, Type = ''Other'', Buy_Amount = [], Buy_Currency = [],
          Sell_Amount = [], Sell_Currency = [], Fee_Amount = ''0'', Fee_Currency = ''OSMO'',
          Exchange = ''Osmosis'', Transaction_ID = ''ABC123''\<rparr> \<and>
   ''Other'' \<noteq> ''Vote''"
  by (simp add: mapToAwakenTax_def formatForCSV_def toISO8601_def)

text \<open>
  C9, amended. A transaction of type vote and a transaction of type unknown, at a valid
  time, both have the row Type Other, and the four Buy and Sell fields of the row are empty
  strings whatever amounts the transaction carries.
\<close>

theorem vote_unknown_report_row:
  "(tx_type tx = Vote \<or> tx_type tx = Unknown) \<and> timestamp tx = Time ms \<longrightarrow>
     mapToAwakenTax tx =
       Inr \<lparr>Date = toISOString ms, Type = ''Other'', Buy_Amount = [], Buy_Currency = [],
            Sell_Amount = [], Sell_Currency = [], Fee_Amount = value' (fee tx),
            Fee_Currency = symbol (fee tx), Exchange = ''Osmosis'', Transaction_ID = hash tx\<rparr>"
  by (auto simp: mapToAwakenTax_def formatForCSV_def toISO8601_def)

theorem vote_unknown_report_row_witness:
  "mapToAwakenTax
     \<lparr>hash = ''ABC123'', timestamp = Time 0, tx_type = Unknown, status = Failed,
      amounts = [\<lparr>value' = ''1'', denom = ''uosmo'', symbol = ''OSMO''\<rparr>],
      fee = \<lparr>value' = ''0.005'', denom = ''uosmo'', symbol = ''OSMO''\<rparr>, memo = None\<rparr> =
     Inr \<lparr>Date = toISOString 0, Type = ''Other'', Buy_Amount = [], Buy_Currency = [],
          Sell_Amount = [], Sell_Currency = [], Fee_Amount = ''0.005'', Fee_Currency = ''OSMO'',
          Exchange = ''Osmosis'', Transaction_ID = ''ABC123''\<rparr>"
  using vote_unknown_report_row
    [of "\<lparr>hash = ''ABC123'', timestamp = Time 0, tx_type = Unknown, status = Failed,
      amounts = [\<lparr>value' = ''1'', denom = ''uosmo'', symbol = ''OSMO''\<rparr>],
      fee = \<lparr>value' = ''0.005'', denom = ''uosmo'', symbol = ''OSMO''\<rparr>, memo = None\<rparr>" 0]
  by simp

section \<open>The report document\<close>

lemma escapeCSVField_doubled:
  "concat (map (\<lambda>c. if c = CHR 0x22 then [CHR 0x22, CHR 0x22] else [c]) f) = doubled_quotes f"
  by (induction f) simp_all

lemma join_Cons: "join sep (x # xs) = x @ concat (map (\<lambda>y. sep @ y) xs)"
  by (induction xs arbitrary: x) simp_all

lemma map_rows_Inr:
  "map_rows txs = Inr rows \<Longrightarrow>
     length rows = length txs \<and> (\<forall>i<length txs. mapToAwakenTax (txs ! i) = Inr (rows ! i))"
proof (induction txs arbitrary: rows)
  case Nil
  then show ?case by simp
next
  case (Cons tx txs)
  from Cons.prems obtain r rs where r: "mapToAwakenTax tx = Inr r"
    and rs: "map_rows txs = Inr rs" and rows: "rows = r # rs"
    by (auto split: sum.splits)
  from Cons.IH [OF rs] r rows show ?case
    by (auto simp: nth_Cons split: nat.splits)
qed

lemma mapToAwakenTax_valid: "timestamp tx = Time ms \<Longrightarrow> \<exists>r. mapToAwakenTax tx = Inr r"
  by (simp add: mapToAwakenTax_def formatForCSV_def toISO8601_def Let_def)

lemma mapToAwakenTax_invalid:
  "timestamp tx = InvalidDate \<Longrightarrow> mapToAwakenTax tx = Inl (Error ''Invalid timestamp provided'')"
  by (simp add: mapToAwakenTax_def formatForCSV_def toISO8601_def)

lemma map_rows_total:
  "\<forall>tx\<in>set txs. \<exists>ms. timestamp tx = Time ms \<Longrightarrow> \<exists>rs. map_rows txs = Inr rs"
proof (induction txs)
  case Nil
  show ?case by simp
next
  case (Cons tx txs)
  from Cons.prems obtain ms where "timestamp tx = Time ms" by auto
  then obtain r where r: "mapToAwakenTax tx = Inr r"
    using mapToAwakenTax_valid by blast
  from Cons.prems have "\<forall>tx\<in>set txs. \<exists>ms. timestamp tx = Time ms" by simp
  then obtain rs where "map_rows txs = Inr rs"
    using Cons.IH by blast
  with r show ?case by simp
qed

lemma map_rows_invalid:
  "\<exists>tx\<in>set txs. timestamp tx = InvalidDate \<Longrightarrow>
     map_rows txs = Inl (Error ''Invalid timestamp provided'')"
proof (induction txs)
  case Nil
  then show ?case by simp
next
  case (Cons tx txs)
  show ?case
  proof (cases "timestamp tx")
    case InvalidDate
    then show ?thesis by (simp add: mapToAwakenTax_invalid)
  next
    case (Time ms)
    then obtain r where r: "mapToAwakenTax tx = Inr r"
      using mapToAwakenTax_valid by blast
    from Time Cons.prems have "\<exists>tx\<in>set txs. timestamp tx = InvalidDate" by auto
    then have "map_rows txs = Inl (Error ''Invalid timestamp provided'')"
      by (rule Cons.IH)
    with r show ?thesis by simp
  qed
qed

text \<open>
  C8. A field with a comma, a double quote or a newline is written between double quotes
  with every double quote of its own doubled; any other field is written as it is. So
  \<open>Contains, comma\<close> is written between quotes. The document is the header row, then for each
  row a single newline and the ten fields of the row, escaped, in the order of the header
  and separated by commas. The export of any list of transactions with valid timestamps
  returns such a document, generated from one row for each transaction, in their order; a
  transaction with an invalid timestamp makes the export throw, and it is the only way for
  the export to fail.
\<close>

theorem csv_document_encoding:
  "(CHR '','' \<in> set f \<or> CHR 0x22 \<in> set f \<or> CHR 0x0A \<in> set f \<longrightarrow>
      escapeCSVField f = [CHR 0x22] @ doubled_quotes f @ [CHR 0x22]) \<and>
   (\<not> (CHR '','' \<in> set f \<or> CHR 0x22 \<in> set f \<or> CHR 0x0A \<in> set f) \<longrightarrow> escapeCSVField f = f) \<and>
   escapeCSVField ''Contains, comma'' = [CHR 0x22] @ ''Contains, comma'' @ [CHR 0x22] \<and>
   generateCSV rows =
     ''Date,Type,Buy Amount,Buy Currency,Sell Amount,Sell Currency,Fee Amount,Fee Currency,Exchange,Transaction ID''
     @ concat (map (\<lambda>r. [CHR 0x0A] @
         escapeCSVField (Date r) @ '','' @ escapeCSVField (Type r) @ '','' @
         escapeCSVField (Buy_Amount r) @ '','' @ escapeCSVField (Buy_Currency r) @ '','' @
         escapeCSVField (Sell_Amount r) @ '','' @ escapeCSVField (Sell_Currency r) @ '','' @
         escapeCSVField (Fee_Amount r) @ '','' @ escapeCSVField (Fee_Currency r) @ '','' @
         escapeCSVField (Exchange r) @ '','' @ escapeCSVField (Transaction_ID r)) rows) \<and>
   (exportToAwakenTax txs = Inr doc \<longrightarrow>
      (\<exists>rs. length rs = length txs \<and> (\<forall>i<length txs. mapToAwakenTax (txs ! i) = Inr (rs ! i)) \<and>
            doc = generateCSV rs)) \<and>
   ((\<forall>tx\<in>set txs. \<exists>ms. timestamp tx = Time ms) \<longrightarrow>
      (\<exists>rs. exportToAwakenTax txs = Inr (generateCSV rs) \<and> length rs = length txs \<and>
            (\<forall>i<length txs. mapToAwakenTax (txs ! i) = Inr (rs ! i)))) \<and>
   ((\<exists>tx\<in>set txs. timestamp tx = InvalidDate) \<longrightarrow>
      exportToAwakenTax txs = Inl (Error ''Invalid timestamp provided''))"
proof -
  have quoted: "escapeCSVField f = [CHR 0x22] @ doubled_quotes f @ [CHR 0x22]"
    if "CHR '','' \<in> set f \<or> CHR 0x22 \<in> set f \<or> CHR 0x0A \<in> set f"
    using that by (simp add: escapeCSVField_def escapeCSVField_doubled)
  have plain: "escapeCSVField f = f"
    if "\<not> (CHR '','' \<in> set f \<or> CHR 0x22 \<in> set f \<or> CHR 0x0A \<in> set f)"
    using that by (simp add: escapeCSVField_def)
  have example: "escapeCSVField ''Contains, comma'' = [CHR 0x22] @ ''Contains, comma'' @ [CHR 0x22]"
    by (simp add: escapeCSVField_def)
  have header: "join '','' (map escapeCSVField headers) =
    ''Date,Type,Buy Amount,Buy Currency,Sell Amount,Sell Currency,Fee Amount,Fee Currency,Exchange,Transaction ID''"
    by (simp add: headers_def escapeCSVField_def)
  have document: "generateCSV rows =
     ''Date,Type,Buy Amount,Buy Currency,Sell Amount,Sell Currency,Fee Amount,Fee Currency,Exchange,Transaction ID''
     @ concat (map (\<lambda>r. [CHR 0x0A] @
         escapeCSVField (Date r) @ '','' @ escapeCSVField (Type r) @ '','' @
         escapeCSVField (Buy_Amount r) @ '','' @ escapeCSVField (Buy_Currency r) @ '','' @
         escapeCSVField (Sell_Amount r) @ '','' @ escapeCSVField (Sell_Currency r) @ '','' @
         escapeCSVField (Fee_Amount r) @ '','' @ escapeCSVField (Fee_Currency r) @ '','' @
         escapeCSVField (Exchange r) @ '','' @ escapeCSVField (Transaction_ID r)) rows)"
    unfolding generateCSV_def Let_def header join_Cons
    by (simp add: row_values_def or_else_def comp_def)
  have export: "\<exists>rs. length rs = length txs \<and>
      (\<forall>i<length txs. mapToAwakenTax (txs ! i) = Inr (rs ! i)) \<and> doc = generateCSV rs"
    if "exportToAwakenTax txs = Inr doc"
  proof -
    from that obtain rs where rs: "map_rows txs = Inr rs" and doc: "doc = generateCSV rs"
      by (auto simp: exportToAwakenTax_def split: sum.splits)
    from map_rows_Inr [OF rs] doc show ?thesis by blast
  qed
  have total: "\<exists>rs. exportToAwakenTax txs = Inr (generateCSV rs) \<and> length rs = length txs \<and>
            (\<forall>i<length txs. mapToAwakenTax (txs ! i) = Inr (rs ! i))"
    if "\<forall>tx\<in>set txs. \<exists>ms. timestamp tx = Time ms"
  proof -
    from that obtain rs where rs: "map_rows txs = Inr rs"
      using map_rows_total by blast
    then have "exportToAwakenTax txs = Inr (generateCSV rs)"
      by (simp add: exportToAwakenTax_def)
    with map_rows_Inr [OF rs] show ?thesis by blast
  qed
  have throws: "exportToAwakenTax txs = Inl (Error ''Invalid timestamp provided'')"
    if "\<exists>tx\<in>set txs. timestamp tx = InvalidDate"
    using map_rows_invalid [OF that] by (simp add: exportToAwakenTax_def)
  from quoted plain example document export total throws show ?thesis by blast
qed

theorem csv_document_encoding_witness:
  "escapeCSVField (''say '' @ [CHR 0x22] @ ''hi'' @ [CHR 0x22]) =
     [CHR 0x22] @ ''say '' @ [CHR 0x22, CHR 0x22] @ ''hi'' @ [CHR 0x22, CHR 0x22] @ [CHR 0x22] \<and>
   escapeCSVField ''OSMO'' = ''OSMO'' \<and>
   exportToAwakenTax
     [\<lparr>hash = ''ABC123'', timestamp = Time 5000000, tx_type = Swap, status = Success,
       amounts = [\<lparr>value' = ''10'', denom = ''uosmo'', symbol = ''OSMO''\<rparr>,
                  \<lparr>value' = ''5'', denom = ''uatom'', symbol = ''ATOM''\<rparr>],
       fee = \<lparr>value' = ''0.005'', denom = ''uosmo'', symbol = ''OSMO''\<rparr>, memo = None\<rparr>,
      \<lparr>hash = ''X,Y'', timestamp = Time 0, tx_type = Vote, status = Success, amounts = [],
       fee = \<lparr>value' = ''0'', denom = ''uosmo'', symbol = ''OSMO''\<rparr>, memo = None\<rparr>,
      \<lparr>hash = ''DEF456'', timestamp = Time 1700000000000, tx_type = Transfer, status = Failed,
       amounts = [\<lparr>value' = ''1.5'', denom = ''uosmo'', symbol = ''OSMO''\<rparr>],
       fee = \<lparr>value' = ''0.005'', denom = ''uosmo'', symbol = ''OSMO''\<rparr>,
       memo = Some ''Contains, comma''\<rparr>] =
   Inr (''Date,Type,Buy Amount,Buy Currency,Sell Amount,Sell Currency,Fee Amount,Fee Currency,Exchange,Transaction ID''
        @ [CHR 0x0A] @ ''1970-01-01T01:23:20.000Z,Trade,5,ATOM,10,OSMO,0.005,OSMO,Osmosis,ABC123''
        @ [CHR 0x0A] @ ''1970-01-01T00:00:00.000Z,Other,,,,,0,OSMO,Osmosis,'' @ [CHR 0x22] @ ''X,Y'' @ [CHR 0x22]
        @ [CHR 0x0A] @ ''2023-11-14T22:13:20.000Z,Transfer,,,1.5,OSMO,0.005,OSMO,Osmosis,DEF456'') \<and>
   exportToAwakenTax
     [\<lparr>hash = ''ABC123'', timestamp = Time 0, tx_type = Vote, status = Success, amounts = [],
       fee = \<lparr>value' = ''0'', denom = ''uosmo'', symbol = ''OSMO''\<rparr>, memo = None\<rparr>,
      \<lparr>hash = ''DEF456'', timestamp = InvalidDate, tx_type = Vote, status = Success, amounts = [],
       fee = \<lparr>value' = ''0'', denom = ''uosmo'', symbol = ''OSMO''\<rparr>, memo = None\<rparr>] =
   Inl (Error ''Invalid timestamp provided'')"
proof -
  let ?t1 = "\<lparr>hash = ''ABC123'', timestamp = Time 5000000, tx_type = Swap, status = Success,
       amounts = [\<lparr>value' = ''10'', denom = ''uosmo'', symbol = ''OSMO''\<rparr>,
                  \<lparr>value' = ''5'', denom = ''uatom'', symbol = ''ATOM''\<rparr>],
       fee = \<lparr>value' = ''0.005'', denom = ''uosmo'', symbol = ''OSMO''\<rparr>, memo = None\<rparr>"
  let ?t2 = "\<lparr>hash = ''X,Y'', timestamp = Time 0, tx_type = Vote, status = Success, amounts = [],
       fee = \<lparr>value' = ''0'', denom = ''uosmo'', symbol = ''OSMO''\<rparr>, memo = None\<rparr>"
  let ?t3 = "\<lparr>hash = ''DEF456'', timestamp = Time 1700000000000, tx_type = Transfer,
       status = Failed,
       amounts = [\<lparr>value' = ''1.5'', denom = ''uosmo'', symbol = ''OSMO''\<rparr>],
       fee = \<lparr>value' = ''0.005'', denom = ''uosmo'', symbol = ''OSMO''\<rparr>,
       memo = Some ''Contains, comma''\<rparr>"
  let ?r1 = "\<lparr>Date = ''1970-01-01T01:23:20.000Z'', Type = ''Trade'', Buy_Amount = ''5'',
       Buy_Currency = ''ATOM'', Sell_Amount = ''10'', Sell_Currency = ''OSMO'',
       Fee_Amount = ''0.005'', Fee_Currency = ''OSMO'', Exchange = ''Osmosis'',
       Transaction_ID = ''ABC123''\<rparr>"
  let ?r2 = "\<lparr>Date = ''1970-01-01T00:00:00.000Z'', Type = ''Other'', Buy_Amount = [],
       Buy_Currency = [], Sell_Amount = [], Sell_Currency = [], Fee_Amount = ''0'',
       Fee_Currency = ''OSMO'', Exchange = ''Osmosis'', Transaction_ID = ''X,Y''\<rparr>"
  let ?r3 = "\<lparr>Date = ''2023-11-14T22:13:20.000Z'', Type = ''Transfer'', Buy_Amount = [],
       Buy_Currency = [], Sell_Amount = ''1.5'', Sell_Currency = ''OSMO'',
       Fee_Amount = ''0.005'', Fee_Currency = ''OSMO'', Exchange = ''Osmosis'',
       Transaction_ID = ''DEF456''\<rparr>"
  have a: "escapeCSVField (''say '' @ [CHR 0x22] @ ''hi'' @ [CHR 0x22]) =
     [CHR 0x22] @ ''say '' @ [CHR 0x22, CHR 0x22] @ ''hi'' @ [CHR 0x22, CHR 0x22] @ [CHR 0x22]"
    using csv_document_encoding [of "''say '' @ [CHR 0x22] @ ''hi'' @ [CHR 0x22]"] by simp
  have b: "escapeCSVField ''OSMO'' = ''OSMO''"
    using csv_document_encoding [of "''OSMO''"] by simp
  have iso: "toISOString 5000000 = ''1970-01-01T01:23:20.000Z''"
    "toISOString 0 = ''1970-01-01T00:00:00.000Z''"
    "toISOString 1700000000000 = ''2023-11-14T22:13:20.000Z''"
    by (simp_all add: toISOString_def civil_from_days_def pad_num_def padStart_def
        digits_of.simps digit_char_def Let_def replicate_numeral cong: let_weak_cong)
  have rows: "mapToAwakenTax ?t1 = Inr ?r1" "mapToAwakenTax ?t2 = Inr ?r2"
    "mapToAwakenTax ?t3 = Inr ?r3"
    by (simp_all add: mapToAwakenTax_def formatForCSV_def toISO8601_def iso mapSwap_def
        mapTransfer_def)
  have valid: "\<forall>tx\<in>set [?t1, ?t2, ?t3]. \<exists>ms. timestamp tx = Time ms"
    by simp
  have "\<exists>rs. exportToAwakenTax [?t1, ?t2, ?t3] = Inr (generateCSV rs) \<and>
      length rs = length [?t1, ?t2, ?t3] \<and>
      (\<forall>i<length [?t1, ?t2, ?t3]. mapToAwakenTax ([?t1, ?t2, ?t3] ! i) = Inr (rs ! i))"
    using valid csv_document_encoding [of "[]" "[]" "[?t1, ?t2, ?t3]" "[]"]
    by (elim conjE) (erule mp)
  then obtain rs where doc: "exportToAwakenTax [?t1, ?t2, ?t3] = Inr (generateCSV rs)"
    and len: "length rs = 3"
    and each: "\<forall>i<3. mapToAwakenTax ([?t1, ?t2, ?t3] ! i) = Inr (rs ! i)"
    by auto
  have "(0::nat) < 3" "(1::nat) < 3" "(2::nat) < 3"
    by simp_all
  with each have "mapToAwakenTax ([?t1, ?t2, ?t3] ! 0) = Inr (rs ! 0)"
    "mapToAwakenTax ([?t1, ?t2, ?t3] ! 1) = Inr (rs ! 1)"
    "mapToAwakenTax ([?t1, ?t2, ?t3] ! 2) = Inr (rs ! 2)"
    by blast+
  then have "mapToAwakenTax ?t1 = Inr (rs ! 0)" "mapToAwakenTax ?t2 = Inr (rs ! 1)"
    "mapToAwakenTax ?t3 = Inr (rs ! 2)"
    by simp_all
  with rows have nth: "rs ! 0 = ?r1" "rs ! 1 = ?r2" "rs ! 2 = ?r3"
    by simp_all
  from len obtain x y z where "rs = [x, y, z]"
    by (auto simp: length_Suc_conv numeral_3_eq_3)
  with nth have rs: "rs = [?r1, ?r2, ?r3]"
    by simp
  have csv: "generateCSV [?r1, ?r2, ?r3] =
      ''Date,Type,Buy Amount,Buy Currency,Sell Amount,Sell Currency,Fee Amount,Fee Currency,Exchange,Transaction ID''
        @ [CHR 0x0A] @ ''1970-01-01T01:23:20.000Z,Trade,5,ATOM,10,OSMO,0.005,OSMO,Osmosis,ABC123''
        @ [CHR 0x0A] @ ''1970-01-01T00:00:00.000Z,Other,,,,,0,OSMO,Osmosis,'' @ [CHR 0x22] @ ''X,Y'' @ [CHR 0x22]
        @ [CHR 0x0A] @ ''2023-11-14T22:13:20.000Z,Transfer,,,1.5,OSMO,0.005,OSMO,Osmosis,DEF456''"
    by (simp add: generateCSV_def headers_def row_values_def escapeCSVField_def or_else_def)
  have c: "exportToAwakenTax [?t1, ?t2, ?t3] =
      Inr (''Date,Type,Buy Amount,Buy Currency,Sell Amount,Sell Currency,Fee Amount,Fee Currency,Exchange,Transaction ID''
        @ [CHR 0x0A] @ ''1970-01-01T01:23:20.000Z,Trade,5,ATOM,10,OSMO,0.005,OSMO,Osmosis,ABC123''
        @ [CHR 0x0A] @ ''1970-01-01T00:00:00.000Z,Other,,,,,0,OSMO,Osmosis,'' @ [CHR 0x22] @ ''X,Y'' @ [CHR 0x22]
        @ [CHR 0x0A] @ ''2023-11-14T22:13:20.000Z,Transfer,,,1.5,OSMO,0.005,OSMO,Osmosis,DEF456'')"
    using doc unfolding rs csv .
  let ?v = "\<lparr>hash = ''ABC123'', timestamp = Time 0, tx_type = Vote, status = Success, amounts = [],
       fee = \<lparr>value' = ''0'', denom = ''uosmo'', symbol = ''OSMO''\<rparr>, memo = None\<rparr>"
  let ?w = "\<lparr>hash = ''DEF456'', timestamp = InvalidDate, tx_type = Vote, status = Success,
       amounts = [], fee = \<lparr>value' = ''0'', denom = ''uosmo'', symbol = ''OSMO''\<rparr>, memo = None\<rparr>"
  have invalid: "\<exists>tx\<in>set [?v, ?w]. timestamp tx = InvalidDate"
    by simp
  have d: "exportToAwakenTax [?v, ?w] = Inl (Error ''Invalid timestamp provided'')"
    using invalid csv_document_encoding [of "[]" "[]" "[?v, ?w]" "[]"]
    by (elim conjE) (erule mp)
  from a b c d show ?thesis by (intro conjI)
qed

section \<open>Pagination\<close>

lemma date_filtered_none:
  "\<forall>opts. options = Some opts \<longrightarrow> startDate opts = None \<and> endDate opts = None \<Longrightarrow>
     \<not> date_filtered options parsedTx"
  by (auto simp: date_filtered_def split: option.splits)

lemma push_page_all:
  "\<forall>opts. options = Some opts \<longrightarrow> startDate opts = None \<and> endDate opts = None \<Longrightarrow>
   map (\<lambda>tx. parseTransaction tx address) txs = map Inr ps \<Longrightarrow>
   push_page address options txs acc = (None, acc @ ps)"
proof (induction txs arbitrary: ps acc)
  case Nil
  then show ?case by simp
next
  case (Cons tx txs)
  from Cons.prems(2) obtain p ps' where ps: "ps = p # ps'"
    and p: "parseTransaction tx address = Inr p"
    and rest: "map (\<lambda>tx. parseTransaction tx address) txs = map Inr ps'"
    by (cases ps) auto
  from Cons.IH [OF Cons.prems(1) rest, of "acc @ [p]"] p ps date_filtered_none [OF Cons.prems(1)]
  show ?case by simp
qed

lemma page_size_positive: "0 < page_size options"
  by (auto simp: page_size_def requested_limit_def split: option.splits)

lemma loop_body_error:
  "searchTx (cur_offset st div page_size options + 1) (page_size options) = Inl e \<Longrightarrow>
   loop_body searchTx address options st =
     st\<lparr>requested := requested st @ [cur_offset st div page_size options + 1], hasMore := False\<rparr>"
  by (simp add: loop_body_def Let_def)

lemma loop_body_full_page:
  assumes "requested_limit options = None"
    and "\<forall>opts. options = Some opts \<longrightarrow> startDate opts = None \<and> endDate opts = None"
    and "searchTx (cur_offset st div page_size options + 1) (page_size options) = Inr txs"
    and "length txs = page_size options"
    and "map (\<lambda>tx. parseTransaction tx address) txs = map Inr ps"
  shows "loop_body searchTx address options st =
     st\<lparr>requested := requested st @ [cur_offset st div page_size options + 1],
        allTransactions := allTransactions st @ ps,
        cur_offset := cur_offset st + page_size options\<rparr>"
  using assms page_size_positive [of options]
  by (simp add: loop_body_def Let_def push_page_all)

lemma loop_body_last_page:
  assumes "\<forall>opts. options = Some opts \<longrightarrow> startDate opts = None \<and> endDate opts = None"
    and "searchTx (cur_offset st div page_size options + 1) (page_size options) = Inr txs"
    and "length txs < page_size options"
    and "map (\<lambda>tx. parseTransaction tx address) txs = map Inr ps"
  shows "loop_body searchTx address options st =
     st\<lparr>requested := requested st @ [cur_offset st div page_size options + 1],
        allTransactions := allTransactions st @ ps,
        hasMore := False\<rparr>"
proof -
  from assms(4) have len: "length ps = length txs"
    by (metis length_map)
  from assms len show ?thesis
    by (auto simp: loop_body_def Let_def push_page_all split: option.splits)
qed

lemma while_hasMore_done: "\<not> hasMore st \<Longrightarrow> while_hasMore searchTx address options st = Some st"
  by (subst while_hasMore.simps) simp

lemma while_hasMore_step:
  "hasMore st \<Longrightarrow> while_hasMore searchTx address options st =
     while_hasMore searchTx address options (loop_body searchTx address options st)"
  by (subst while_hasMore.simps) simp

lemma map_Inr_append_split:
  "map f (xs @ ys) = map Inr zs \<Longrightarrow>
     map f xs = map Inr (take (length xs) zs) \<and> map f ys = map Inr (drop (length xs) zs)"
proof -
  assume h: "map f (xs @ ys) = map Inr zs"
  then have "length zs = length xs + length ys"
    by (metis length_append length_map)
  with h show ?thesis
    by (metis append_eq_conv_conj drop_map take_map)
qed

text \<open>
  A run of full pages, with no requested limit and no date filter: the loop passes through
  them, accumulating their records and asking for consecutive page numbers.
\<close>

lemma full_pages_run:
  assumes nolimit: "requested_limit options = None"
    and nodate: "\<forall>opts. options = Some opts \<longrightarrow> startDate opts = None \<and> endDate opts = None"
  shows "hasMore st \<Longrightarrow>
    \<forall>i<length fulls. searchTx (cur_offset st div page_size options + 1 + i) (page_size options)
          = Inr (fulls ! i) \<and> length (fulls ! i) = page_size options \<Longrightarrow>
    map (\<lambda>tx. parseTransaction tx address) (concat fulls) = map Inr records \<Longrightarrow>
    while_hasMore searchTx address options st =
      while_hasMore searchTx address options
        (st\<lparr>requested := requested st @
               [cur_offset st div page_size options + 1 ..<
                cur_offset st div page_size options + 1 + length fulls],
            allTransactions := allTransactions st @ records,
            cur_offset := cur_offset st + length fulls * page_size options\<rparr>)"
proof (induction fulls arbitrary: st records)
  case Nil
  then show ?case by simp
next
  case (Cons pg fulls)
  let ?lim = "page_size options"
  let ?p0 = "cur_offset st div ?lim + 1"
  have pos: "0 < ?lim" by (rule page_size_positive)
  have "0 < length (pg # fulls)" by simp
  with Cons.prems(2) have "searchTx (?p0 + 0) ?lim = Inr ((pg # fulls) ! 0)
      \<and> length ((pg # fulls) ! 0) = ?lim"
    by blast
  then have pg: "searchTx ?p0 ?lim = Inr pg" and len: "length pg = ?lim"
    by simp_all
  have "concat (pg # fulls) = pg @ concat fulls" by simp
  with Cons.prems(3)
  have "map (\<lambda>tx. parseTransaction tx address) (pg @ concat fulls) = map Inr records"
    by (simp only:)
  note both = map_Inr_append_split [OF this]
  note split = both [THEN conjunct1] both [THEN conjunct2]
  let ?st1 = "st\<lparr>requested := requested st @ [?p0],
        allTransactions := allTransactions st @ take (length pg) records,
        cur_offset := cur_offset st + ?lim\<rparr>"
  have body: "loop_body searchTx address options st = ?st1"
    using nolimit nodate pg len split(1) by (rule loop_body_full_page)
  have more: "hasMore ?st1"
    using Cons.prems(1) by simp
  have "(cur_offset st + ?lim) div ?lim = cur_offset st div ?lim + 1"
    using pos by (simp add: div_add_self2)
  then have next_page: "cur_offset ?st1 div ?lim + 1 = ?p0 + 1"
    by simp
  have pages: "\<forall>i<length fulls. searchTx (cur_offset ?st1 div ?lim + 1 + i) ?lim = Inr (fulls ! i)
      \<and> length (fulls ! i) = ?lim"
  proof (intro allI impI)
    fix i assume "i < length fulls"
    then have "Suc i < length (pg # fulls)" by simp
    with Cons.prems(2) have "searchTx (?p0 + Suc i) ?lim = Inr ((pg # fulls) ! Suc i)
      \<and> length ((pg # fulls) ! Suc i) = ?lim"
      by blast
    then show "searchTx (cur_offset ?st1 div ?lim + 1 + i) ?lim = Inr (fulls ! i)
      \<and> length (fulls ! i) = ?lim"
      unfolding next_page by simp
  qed
  have "while_hasMore searchTx address options st = while_hasMore searchTx address options ?st1"
    using while_hasMore_step [OF Cons.prems(1), of searchTx address options] unfolding body .
  also have "\<dots> = while_hasMore searchTx address options
        (?st1\<lparr>requested := requested ?st1 @
               [cur_offset ?st1 div ?lim + 1 ..< cur_offset ?st1 div ?lim + 1 + length fulls],
            allTransactions := allTransactions ?st1 @ drop (length pg) records,
            cur_offset := cur_offset ?st1 + length fulls * ?lim\<rparr>)"
    using more pages split(2) by (rule Cons.IH)
  also have "?st1\<lparr>requested := requested ?st1 @
               [cur_offset ?st1 div ?lim + 1 ..< cur_offset ?st1 div ?lim + 1 + length fulls],
            allTransactions := allTransactions ?st1 @ drop (length pg) records,
            cur_offset := cur_offset ?st1 + length fulls * ?lim\<rparr> =
      st\<lparr>requested := requested st @ [?p0 ..< ?p0 + length (pg # fulls)],
            allTransactions := allTransactions st @ records,
            cur_offset := cur_offset st + length (pg # fulls) * ?lim\<rparr>"
  proof -
    have "?p0 < ?p0 + length (pg # fulls)" by simp
    then have "[?p0 ..< ?p0 + length (pg # fulls)] = ?p0 # [Suc ?p0 ..< ?p0 + length (pg # fulls)]"
      by (rule upt_conv_Cons)
    then have req: "[?p0] @ [?p0 + 1 ..< ?p0 + 1 + length fulls] = [?p0 ..< ?p0 + length (pg # fulls)]"
      by simp
    have "requested ?st1 @ [?p0 + 1 ..< ?p0 + 1 + length fulls] =
        requested st @ [?p0 ..< ?p0 + length (pg # fulls)]"
      using req by simp
    then show ?thesis
      unfolding next_page by (simp add: add.assoc)
  qed
  finally show ?case .
qed

lemma fetch_full_pages:
  assumes limit_or_none: "requested_limit options = None \<or> fulls = []"
    and nodate: "\<forall>opts. options = Some opts \<longrightarrow> startDate opts = None \<and> endDate opts = None"
    and pages: "\<forall>i<length fulls.
        searchTx (start_offset options div page_size options + 1 + i) (page_size options)
          = Inr (fulls ! i) \<and> length (fulls ! i) = page_size options"
    and parsed: "map (\<lambda>tx. parseTransaction tx address) (concat fulls) = map Inr recs"
  shows "while_hasMore searchTx address options
           \<lparr>hasMore = True, cur_offset = start_offset options, allTransactions = [], requested = []\<rparr> =
         while_hasMore searchTx address options
           \<lparr>hasMore = True, cur_offset = start_offset options + length fulls * page_size options,
            allTransactions = recs,
            requested = [start_offset options div page_size options + 1 ..<
                         start_offset options div page_size options + 1 + length fulls]\<rparr>"
proof (cases "fulls = []")
  case True
  with parsed show ?thesis by simp
next
  case False
  with limit_or_none have nolimit: "requested_limit options = None" by simp
  let ?st0 = "\<lparr>hasMore = True, cur_offset = start_offset options, allTransactions = [],
              requested = []\<rparr>"
  have more: "hasMore ?st0" by simp
  have pages0: "\<forall>i<length fulls.
      searchTx (cur_offset ?st0 div page_size options + 1 + i) (page_size options)
        = Inr (fulls ! i) \<and> length (fulls ! i) = page_size options"
    using pages by simp
  have "while_hasMore searchTx address options ?st0 =
      while_hasMore searchTx address options
        (?st0\<lparr>requested := requested ?st0 @
               [cur_offset ?st0 div page_size options + 1 ..<
                cur_offset ?st0 div page_size options + 1 + length fulls],
            allTransactions := allTransactions ?st0 @ recs,
            cur_offset := cur_offset ?st0 + length fulls * page_size options\<rparr>)"
    using more pages0 parsed by (rule full_pages_run [OF nolimit nodate])
  then show ?thesis by simp
qed

lemma page_after_full_pages:
  "(start_offset options + n * page_size options) div page_size options + 1 =
     start_offset options div page_size options + 1 + n"
  using page_size_positive [of options] by simp

lemma parseTransaction_bare_tx:
  "parseTransaction (bare_tx h) address =
     Inr \<lparr>hash = h, timestamp = Time 5000000, tx_type = Unknown, status = Success, amounts = [],
          fee = \<lparr>value' = ''0'', denom = ''uosmo'', symbol = ''OSMO''\<rparr>, memo = None\<rparr>"
  by (simp add: parseTransaction_def bare_tx_def parseMessages_def parseFee_def new_Date_def
      truthy_def)

lemma validateAddress_sample: "validateAddress ''osmo1qypqxpq9qcrsszg2pvxq6rs0zqg3yyc5lzv7xu''"
  by (simp add: validateAddress_def osmosisAddressRegex_def replicate_numeral)

text \<open>
  C5 as the claim states it fails when the caller gives the page size as \<open>options.limit\<close>:
  the same number is the overall limit, which the first full page reaches. With the limit 2,
  a full page of two records and a partial page of one, only the first page is requested and
  only its two records are returned.
\<close>

theorem pagination_explicit_limit_counterexample:
  "fetchTransactions
     (Some (mock_searchTx [[bare_tx ''TX1'', bare_tx ''TX2''], [bare_tx ''TX3'']]))
     ''osmo1qypqxpq9qcrsszg2pvxq6rs0zqg3yyc5lzv7xu''
     (Some \<lparr>limit = Some 2, offset = None, startDate = None, endDate = None\<rparr>) =
   Some (Inr [\<lparr>hash = ''TX1'', timestamp = Time 5000000, tx_type = Unknown, status = Success,
               amounts = [], fee = \<lparr>value' = ''0'', denom = ''uosmo'', symbol = ''OSMO''\<rparr>,
               memo = None\<rparr>,
              \<lparr>hash = ''TX2'', timestamp = Time 5000000, tx_type = Unknown, status = Success,
               amounts = [], fee = \<lparr>value' = ''0'', denom = ''uosmo'', symbol = ''OSMO''\<rparr>,
               memo = None\<rparr>],
         [1])"
proof -
  let ?opts = "Some \<lparr>limit = Some 2, offset = None, startDate = None, endDate = None\<rparr>"
  let ?src = "mock_searchTx [[bare_tx ''TX1'', bare_tx ''TX2''], [bare_tx ''TX3'']]"
  let ?a = "''osmo1qypqxpq9qcrsszg2pvxq6rs0zqg3yyc5lzv7xu''"
  let ?st0 = "\<lparr>hasMore = True, cur_offset = 0, allTransactions = [], requested = []\<rparr>"
  have body: "loop_body ?src ?a ?opts ?st0 =
      \<lparr>hasMore = False, cur_offset = 2,
       allTransactions =
         [\<lparr>hash = ''TX1'', timestamp = Time 5000000, tx_type = Unknown, status = Success,
               amounts = [], fee = \<lparr>value' = ''0'', denom = ''uosmo'', symbol = ''OSMO''\<rparr>,
               memo = None\<rparr>,
          \<lparr>hash = ''TX2'', timestamp = Time 5000000, tx_type = Unknown, status = Success,
               amounts = [], fee = \<lparr>value' = ''0'', denom = ''uosmo'', symbol = ''OSMO''\<rparr>,
               memo = None\<rparr>],
       requested = [1]\<rparr>"
    by (simp add: loop_body_def page_size_def requested_limit_def mock_searchTx_def
        parseTransaction_bare_tx date_filtered_def Let_def)
  have "while_hasMore ?src ?a ?opts ?st0 = while_hasMore ?src ?a ?opts (loop_body ?src ?a ?opts ?st0)"
    by (rule while_hasMore_step) simp
  also have "\<dots> = Some (loop_body ?src ?a ?opts ?st0)"
    unfolding body by (rule while_hasMore_done) simp
  finally show ?thesis
    unfolding body by (simp add: fetchTransactions_def validateAddress_sample start_offset_def)
qed

text \<open>
  C5, amended. Let the address be valid, let there be no date filter, and let the caller
  request no limit, so that the page size is the default 100 (or let there be no full page
  at all). If the source answers the first N requested pages with full pages and the next
  with a partial or empty page, and every record parses, then \<open>fetchTransactions\<close> returns
  the records of all the pages, in the order of the pages, each once, and the pages it
  requested are those N + 1 consecutive pages and no other.
\<close>

theorem pagination_completeness:
  assumes "validateAddress address"
    and "requested_limit options = None \<or> fulls = []"
    and "\<forall>opts. options = Some opts \<longrightarrow> startDate opts = None \<and> endDate opts = None"
    and "\<forall>i<length fulls.
        searchTx (start_offset options div page_size options + 1 + i) (page_size options)
          = Inr (fulls ! i) \<and> length (fulls ! i) = page_size options"
    and "searchTx (start_offset options div page_size options + 1 + length fulls)
           (page_size options) = Inr lastp"
    and "length lastp < page_size options"
    and "map (\<lambda>tx. parseTransaction tx address) (concat fulls @ lastp) = map Inr records"
  shows "fetchTransactions (Some searchTx) address options =
    Some (Inr records,
          [start_offset options div page_size options + 1 ..<
           start_offset options div page_size options + 1 + length fulls + 1])"
proof -
  let ?lim = "page_size options"
  let ?p0 = "start_offset options div ?lim + 1"
  let ?n = "length (concat fulls)"
  note both = map_Inr_append_split [OF assms(7)]
  let ?st1 = "\<lparr>hasMore = True, cur_offset = start_offset options + length fulls * ?lim,
            allTransactions = take ?n records, requested = [?p0 ..< ?p0 + length fulls]\<rparr>"
  have run: "while_hasMore searchTx address options
           \<lparr>hasMore = True, cur_offset = start_offset options, allTransactions = [], requested = []\<rparr> =
         while_hasMore searchTx address options ?st1"
    using assms(2) assms(3) assms(4) both [THEN conjunct1] by (rule fetch_full_pages)
  have page: "cur_offset ?st1 div ?lim + 1 = ?p0 + length fulls"
    using page_after_full_pages [of options "length fulls"] by simp
  have last: "searchTx (cur_offset ?st1 div ?lim + 1) ?lim = Inr lastp"
    unfolding page by (rule assms(5))
  have body: "loop_body searchTx address options ?st1 =
     ?st1\<lparr>requested := requested ?st1 @ [cur_offset ?st1 div ?lim + 1],
        allTransactions := allTransactions ?st1 @ drop ?n records,
        hasMore := False\<rparr>"
    using assms(3) last assms(6) both [THEN conjunct2] by (rule loop_body_last_page)
  have "while_hasMore searchTx address options ?st1 =
      while_hasMore searchTx address options (loop_body searchTx address options ?st1)"
    by (rule while_hasMore_step) simp
  also have "\<dots> = Some (loop_body searchTx address options ?st1)"
    unfolding body by (rule while_hasMore_done) simp
  finally have "while_hasMore searchTx address options ?st1 =
      Some \<lparr>hasMore = False, cur_offset = start_offset options + length fulls * ?lim,
            allTransactions = records, requested = [?p0 ..< ?p0 + length fulls + 1]\<rparr>"
    unfolding body page by simp
  with run assms(1) show ?thesis
    by (simp add: fetchTransactions_def)
qed

theorem pagination_completeness_witness:
  "fetchTransactions
     (Some (mock_searchTx [replicate 100 (bare_tx ''TX1''), [bare_tx ''TX2'', bare_tx ''TX3'']]))
     ''osmo1qypqxpq9qcrsszg2pvxq6rs0zqg3yyc5lzv7xu'' None =
   Some (Inr (map (\<lambda>h. \<lparr>hash = h, timestamp = Time 5000000, tx_type = Unknown, status = Success,
                         amounts = [], fee = \<lparr>value' = ''0'', denom = ''uosmo'', symbol = ''OSMO''\<rparr>,
                         memo = None\<rparr>)
                (replicate 100 ''TX1'' @ [''TX2'', ''TX3''])),
         [1, 2])"
proof -
  have interval: "[1 ..< 3] = [1::nat, 2]"
    by (simp add: upt_rec)
  show ?thesis
    using pagination_completeness
      [of "''osmo1qypqxpq9qcrsszg2pvxq6rs0zqg3yyc5lzv7xu''" None "[replicate 100 (bare_tx ''TX1'')]"
        "mock_searchTx [replicate 100 (bare_tx ''TX1''), [bare_tx ''TX2'', bare_tx ''TX3'']]"
        "[bare_tx ''TX2'', bare_tx ''TX3'']"
        "map (\<lambda>h. \<lparr>hash = h, timestamp = Time 5000000, tx_type = Unknown, status = Success,
                         amounts = [], fee = \<lparr>value' = ''0'', denom = ''uosmo'', symbol = ''OSMO''\<rparr>,
                         memo = None\<rparr>)
                (replicate 100 ''TX1'' @ [''TX2'', ''TX3''])"]
    by (simp add: validateAddress_sample requested_limit_def page_size_def start_offset_def
        mock_searchTx_def parseTransaction_bare_tx interval)
qed

text \<open>
  C4. Without a client \<open>fetchTransactions\<close> raises the error of the missing
  initialisation, and with an address that does not validate the error of the address format,
  in both cases before any page is requested. A page request that throws after some full
  pages is caught: the call returns as a success the records accumulated from those pages.
  In any state of the loop a request that throws ends the loop with the accumulated records
  as they are. With a client and a valid address no exception reaches the caller at all.
\<close>

theorem fetchTransactions_errors:
  "fetchTransactions None address options =
     Some (Inl (Error ''Client not initialized. Call initialize() first.''), []) \<and>
   (\<not> validateAddress address \<longrightarrow>
      fetchTransactions (Some searchTx) address options =
        Some (Inl (Error ''Invalid Osmosis address format''), [])) \<and>
   (validateAddress address \<and>
    (requested_limit options = None \<or> fulls = []) \<and>
    (\<forall>opts. options = Some opts \<longrightarrow> startDate opts = None \<and> endDate opts = None) \<and>
    (\<forall>i<length fulls.
        searchTx (start_offset options div page_size options + 1 + i) (page_size options)
          = Inr (fulls ! i) \<and> length (fulls ! i) = page_size options) \<and>
    searchTx (start_offset options div page_size options + 1 + length fulls) (page_size options)
      = Inl e \<and>
    map (\<lambda>tx. parseTransaction tx address) (concat fulls) = map Inr records \<longrightarrow>
      fetchTransactions (Some searchTx) address options =
        Some (Inr records,
              [start_offset options div page_size options + 1 ..<
               start_offset options div page_size options + 1 + length fulls + 1])) \<and>
   (hasMore st \<and>
    searchTx (cur_offset st div page_size options + 1) (page_size options) = Inl e \<longrightarrow>
      while_hasMore searchTx address options st =
        Some (st\<lparr>requested := requested st @ [cur_offset st div page_size options + 1],
                 hasMore := False\<rparr>)) \<and>
   (validateAddress address \<longrightarrow>
      (\<forall>err pages. fetchTransactions (Some searchTx) address options \<noteq> Some (Inl err, pages)))"
proof -
  let ?lim = "page_size options"
  let ?p0 = "start_offset options div ?lim + 1"
  have uninit: "fetchTransactions None address options =
     Some (Inl (Error ''Client not initialized. Call initialize() first.''), [])"
    by (simp add: fetchTransactions_def)
  have invalid: "fetchTransactions (Some searchTx) address options =
        Some (Inl (Error ''Invalid Osmosis address format''), [])"
    if "\<not> validateAddress address"
    using that by (simp add: fetchTransactions_def)
  have caught: "fetchTransactions (Some searchTx) address options =
        Some (Inr records, [?p0 ..< ?p0 + length fulls + 1])"
    if valid: "validateAddress address"
      and limit_or_none: "requested_limit options = None \<or> fulls = []"
      and nodate: "\<forall>opts. options = Some opts \<longrightarrow> startDate opts = None \<and> endDate opts = None"
      and pages: "\<forall>i<length fulls. searchTx (?p0 + i) ?lim = Inr (fulls ! i)
          \<and> length (fulls ! i) = ?lim"
      and throws: "searchTx (?p0 + length fulls) ?lim = Inl e"
      and parsed: "map (\<lambda>tx. parseTransaction tx address) (concat fulls) = map Inr records"
  proof -
    let ?st1 = "\<lparr>hasMore = True, cur_offset = start_offset options + length fulls * ?lim,
            allTransactions = records, requested = [?p0 ..< ?p0 + length fulls]\<rparr>"
    have run: "while_hasMore searchTx address options
           \<lparr>hasMore = True, cur_offset = start_offset options, allTransactions = [], requested = []\<rparr> =
         while_hasMore searchTx address options ?st1"
      using limit_or_none nodate pages parsed by (rule fetch_full_pages)
    have page: "cur_offset ?st1 div ?lim + 1 = ?p0 + length fulls"
      using page_after_full_pages [of options "length fulls"] by simp
    have "searchTx (cur_offset ?st1 div ?lim + 1) ?lim = Inl e"
      unfolding page by (rule throws)
    then have body: "loop_body searchTx address options ?st1 =
        ?st1\<lparr>requested := requested ?st1 @ [cur_offset ?st1 div ?lim + 1], hasMore := False\<rparr>"
      by (rule loop_body_error)
    have "while_hasMore searchTx address options ?st1 =
        while_hasMore searchTx address options (loop_body searchTx address options ?st1)"
      by (rule while_hasMore_step) simp
    also have "\<dots> = Some (loop_body searchTx address options ?st1)"
      unfolding body by (rule while_hasMore_done) simp
    finally have "while_hasMore searchTx address options ?st1 =
        Some \<lparr>hasMore = False, cur_offset = start_offset options + length fulls * ?lim,
              allTransactions = records, requested = [?p0 ..< ?p0 + length fulls + 1]\<rparr>"
      unfolding body page by simp
    with run valid show ?thesis
      by (simp add: fetchTransactions_def)
  qed
  have halts: "while_hasMore searchTx address options st =
        Some (st\<lparr>requested := requested st @ [cur_offset st div page_size options + 1],
                 hasMore := False\<rparr>)"
    if more: "hasMore st"
      and throws: "searchTx (cur_offset st div page_size options + 1) (page_size options) = Inl e"
  proof -
    have body: "loop_body searchTx address options st =
        st\<lparr>requested := requested st @ [cur_offset st div page_size options + 1],
           hasMore := False\<rparr>"
      using throws by (rule loop_body_error)
    have "while_hasMore searchTx address options st =
        while_hasMore searchTx address options (loop_body searchTx address options st)"
      using more by (rule while_hasMore_step)
    also have "\<dots> = Some (loop_body searchTx address options st)"
      unfolding body by (rule while_hasMore_done) simp
    finally show ?thesis
      unfolding body .
  qed
  have no_exception: "\<forall>err pages. fetchTransactions (Some searchTx) address options
      \<noteq> Some (Inl err, pages)"
    if "validateAddress address"
    using that by (auto simp: fetchTransactions_def)
  from uninit invalid caught halts no_exception show ?thesis by blast
qed

theorem fetchTransactions_errors_witness:
  "\<not> validateAddress ''invalid-address'' \<and>
   fetchTransactions (Some (mock_searchTx [])) ''invalid-address'' None =
     Some (Inl (Error ''Invalid Osmosis address format''), []) \<and>
   fetchTransactions
     (Some (mock_searchTx_failing [replicate 100 (bare_tx ''TX1'')] (Error ''network'')))
     ''osmo1qypqxpq9qcrsszg2pvxq6rs0zqg3yyc5lzv7xu'' None =
   Some (Inr (replicate 100
           \<lparr>hash = ''TX1'', timestamp = Time 5000000, tx_type = Unknown, status = Success,
            amounts = [], fee = \<lparr>value' = ''0'', denom = ''uosmo'', symbol = ''OSMO''\<rparr>,
            memo = None\<rparr>),
         [1, 2])"
proof -
  have inv: "\<not> validateAddress ''invalid-address''"
    by (simp add: validateAddress_def osmosisAddressRegex_def)
  have a: "fetchTransactions (Some (mock_searchTx [])) ''invalid-address'' None =
     Some (Inl (Error ''Invalid Osmosis address format''), [])"
    using inv fetchTransactions_errors [of "''invalid-address''" None "mock_searchTx []"]
    by simp
  have interval: "[1 ..< 3] = [1::nat, 2]"
    by (simp add: upt_rec)
  have b: "fetchTransactions
     (Some (mock_searchTx_failing [replicate 100 (bare_tx ''TX1'')] (Error ''network'')))
     ''osmo1qypqxpq9qcrsszg2pvxq6rs0zqg3yyc5lzv7xu'' None =
   Some (Inr (replicate 100
           \<lparr>hash = ''TX1'', timestamp = Time 5000000, tx_type = Unknown, status = Success,
            amounts = [], fee = \<lparr>value' = ''0'', denom = ''uosmo'', symbol = ''OSMO''\<rparr>,
            memo = None\<rparr>),
         [1, 2])"
    using fetchTransactions_errors
      [of "''osmo1qypqxpq9qcrsszg2pvxq6rs0zqg3yyc5lzv7xu''" None
        "mock_searchTx_failing [replicate 100 (bare_tx ''TX1'')] (Error ''network'')"
        "[replicate 100 (bare_tx ''TX1'')]" "Error ''network''"
        "replicate 100
           \<lparr>hash = ''TX1'', timestamp = Time 5000000, tx_type = Unknown, status = Success,
            amounts = [], fee = \<lparr>value' = ''0'', denom = ''uosmo'', symbol = ''OSMO''\<rparr>,
            memo = None\<rparr>"]
    by (simp add: validateAddress_sample requested_limit_def page_size_def start_offset_def
        mock_searchTx_failing_def parseTransaction_bare_tx interval)
  from inv a b show ?thesis by (intro conjI)
qed

section \<open>Decimal numerals\<close>

lemma digit_val_digit_char: "k < 10 \<Longrightarrow> digit_val (digit_char k) = Some k"
proof -
  assume "k < 10"
  then have "k = 0 \<or> k = 1 \<or> k = 2 \<or> k = 3 \<or> k = 4 \<or> k = 5 \<or> k = 6 \<or> k = 7 \<or> k = 8 \<or> k = 9"
    by arith
  then show ?thesis
    by (auto simp: digit_val_def digit_char_def)
qed

lemma digit_val_zero: "digit_val (CHR ''0'') = Some 0"
  by (simp add: digit_val_def)

lemma radix_value_append:
  "radix_value b acc (s @ t) =
     (case radix_value b acc s of None \<Rightarrow> None | Some a \<Rightarrow> radix_value b a t)"
  by (induction s arbitrary: acc) (auto split: option.splits)

lemma radix_value_zeros: "radix_value 10 acc (replicate k (CHR ''0'')) = Some (acc * 10 ^ k)"
  by (induction k arbitrary: acc) (simp_all add: digit_val_zero)

lemma radix_value_digits_of:
  "radix_value 10 acc (digits_of n) = Some (acc * 10 ^ length (digits_of n) + n)"
proof (induction n arbitrary: acc rule: digits_of.induct)
  case (1 n)
  show ?case
  proof (cases "n < 10")
    case True
    then show ?thesis
      by (subst (1 2) digits_of.simps) (simp add: digit_val_digit_char)
  next
    case False
    have m: "n mod 10 < 10" by simp
    have "radix_value 10 acc (digits_of n) =
        radix_value 10 acc (digits_of (n div 10) @ [digit_char (n mod 10)])"
      using False by (subst digits_of.simps) simp
    also have "\<dots> = Some ((acc * 10 ^ length (digits_of (n div 10)) + n div 10) * 10 + n mod 10)"
      using 1 [OF False] m by (simp add: radix_value_append digit_val_digit_char)
    also have "length (digits_of n) = Suc (length (digits_of (n div 10)))"
      using False by (subst digits_of.simps) simp
    then have "(acc * 10 ^ length (digits_of (n div 10)) + n div 10) * 10 + n mod 10 =
        acc * 10 ^ length (digits_of n) + n"
      by (simp add: algebra_simps)
    finally show ?thesis .
  qed
qed

lemma digits_of_nonempty: "digits_of n \<noteq> []"
  by (subst digits_of.simps) simp

lemma digits_of_length: "0 < d \<Longrightarrow> n < 10 ^ d \<Longrightarrow> length (digits_of n) \<le> d"
proof (induction n arbitrary: d rule: digits_of.induct)
  case (1 n)
  show ?case
  proof (cases "n < 10")
    case True
    with 1(2) show ?thesis
      by (subst digits_of.simps) simp
  next
    case False
    from 1(2) obtain d' where d: "d = Suc d'" by (cases d) auto
    with False 1(3) have "0 < d'" by (cases d') auto
    moreover from d 1(3) have "n div 10 < 10 ^ d'"
      by (simp add: less_mult_imp_div_less mult.commute)
    ultimately have "length (digits_of (n div 10)) \<le> d'"
      using 1(1) [OF False] by blast
    with False d show ?thesis
      by (subst digits_of.simps) simp
  qed
qed

section \<open>BigInt on decimal numerals\<close>

lemma startsWith_set: "startsWith s p \<Longrightarrow> set p \<subseteq> set s"
  by (induction s p rule: startsWith.induct) auto

lemma trim_no_space: "\<forall>c\<in>set s. \<not> is_space c \<Longrightarrow> trim s = s"
proof -
  assume h: "\<forall>c\<in>set s. \<not> is_space c"
  then have a: "dropWhile is_space s = s"
    by (cases s) auto
  from h have "dropWhile is_space (rev s) = rev s"
    by (cases "rev s") (auto simp: dropWhile_eq_self_iff)
  with a show ?thesis by (simp add: trim_def)
qed

lemma digit_not_space: "c \<in> set ''0123456789'' \<Longrightarrow> \<not> is_space c"
  by (auto simp: is_space_def)

lemma StringToBigInt_digits:
  assumes ne: "s \<noteq> []" and digits: "set s \<subseteq> set ''0123456789''"
  shows "StringToBigInt s = map_option int (radix_value 10 0 s)"
proof -
  have t: "trim s = s"
    using digits by (intro trim_no_space) (blast dest: digit_not_space)
  have no: "\<not> startsWith s [a, b]" if "b \<notin> set ''0123456789''" for a b
    using startsWith_set [of s "[a, b]"] digits that by auto
  have no1: "\<not> startsWith s [a]" if "a \<notin> set ''0123456789''" for a
    using startsWith_set [of s "[a]"] digits that by auto
  have "\<not> startsWith s ''0x''" "\<not> startsWith s ''0X''" "\<not> startsWith s ''0o''"
    "\<not> startsWith s ''0O''" "\<not> startsWith s ''0b''" "\<not> startsWith s ''0B''"
    "\<not> startsWith s ''-''" "\<not> startsWith s ''+''"
    by (rule no, simp)+ (rule no1, simp)+
  with ne t show ?thesis
    by (simp add: StringToBigInt_def parse_radix_def Let_def)
qed

lemma BigInt_of_digits_of: "BigInt_of_string (digits_of n) = Inr (int n)"
  using StringToBigInt_digits [OF digits_of_nonempty digits_of_digits, of n]
  by (simp add: BigInt_of_string_def radix_value_digits_of)

lemma BigInt_of_zeros: "BigInt_of_string (replicate k (CHR ''0'')) = Inr 0"
proof (cases k)
  case 0
  then show ?thesis
    by (simp add: BigInt_of_string_def StringToBigInt_def trim_def)
next
  case (Suc j)
  have "StringToBigInt (replicate k (CHR ''0'')) =
      map_option int (radix_value 10 0 (replicate k (CHR ''0'')))"
    using Suc by (intro StringToBigInt_digits) auto
  then show ?thesis
    by (simp add: BigInt_of_string_def radix_value_zeros)
qed

lemma BigInt_of_padded:
  "BigInt_of_string (padStart d (CHR ''0'') (digits_of n)) = Inr (int n)"
proof -
  let ?s = "padStart d (CHR ''0'') (digits_of n)"
  have ne: "?s \<noteq> []"
    by (simp add: padStart_def digits_of_nonempty)
  have "set ?s \<subseteq> set ''0123456789''"
    using digits_of_digits [of n] by (auto simp: padStart_def)
  with ne have "StringToBigInt ?s = map_option int (radix_value 10 0 ?s)"
    by (rule StringToBigInt_digits)
  then show ?thesis
    by (simp add: BigInt_of_string_def padStart_def radix_value_append radix_value_zeros
        radix_value_digits_of)
qed

lemma BigInt_toString_nat: "BigInt_toString (int n) = digits_of n"
  by (simp add: BigInt_toString_def)

lemma BigInt_toString_nonneg: "0 \<le> i \<Longrightarrow> BigInt_toString i = digits_of (nat i)"
  by (simp add: BigInt_toString_def)

section \<open>Splitting and padding\<close>

lemma split_no_separator: "sep \<notin> set s \<Longrightarrow> split sep s = [s]"
  by (induction s) auto

lemma split_one_separator:
  "sep \<notin> set a \<Longrightarrow> sep \<notin> set b \<Longrightarrow> split sep (a @ sep # b) = [a, b]"
  by (induction a) (auto simp: split_no_separator)

lemma takeWhile_zeros:
  "takeWhile (\<lambda>c. c = CHR ''0'') xs =
     replicate (length (takeWhile (\<lambda>c. c = CHR ''0'') xs)) (CHR ''0'')"
  by (induction xs) auto

lemma strip_trailing_zeros_decompose:
  "s = strip_trailing_zeros s @
       replicate (length s - length (strip_trailing_zeros s)) (CHR ''0'')"
proof -
  let ?P = "\<lambda>c. c = CHR ''0''"
  have "rev s = takeWhile ?P (rev s) @ dropWhile ?P (rev s)"
    by simp
  then have "s = rev (dropWhile ?P (rev s)) @ rev (takeWhile ?P (rev s))"
    by (metis rev_append rev_rev_ident)
  moreover have "rev (takeWhile ?P (rev s)) =
      replicate (length (takeWhile ?P (rev s))) (CHR ''0'')"
    by (subst takeWhile_zeros) simp
  moreover have "length (takeWhile ?P (rev s)) = length s - length (dropWhile ?P (rev s))"
    by (metis add_diff_cancel_right' length_append length_rev takeWhile_dropWhile_id)
  ultimately show ?thesis
    by (simp add: strip_trailing_zeros_def)
qed

lemma pad_stripped:
  "length s = d \<Longrightarrow> take d (padEnd d (CHR ''0'') (strip_trailing_zeros s)) = s"
  using strip_trailing_zeros_decompose [of s] by (simp add: padEnd_def)

lemma padStart_length: "length s \<le> d \<Longrightarrow> length (padStart d c s) = d"
  by (simp add: padStart_def)

lemma strip_trailing_zeros_set: "set (strip_trailing_zeros s) \<subseteq> set s"
  by (auto simp: strip_trailing_zeros_def dest: set_dropWhileD)

section \<open>The round trip through the decimal string\<close>

lemma bigint_div_rem_nonneg:
  "0 \<le> a \<Longrightarrow> 0 < b \<Longrightarrow> bigint_div a b = a div b \<and> bigint_rem a b = a mod b"
  by (cases "a = 0") (simp_all add: bigint_div_def bigint_rem_def)

text \<open>
  With a divisor that is the exact power of ten, the decimal string of a non-negative
  integer converts back to the integer.
\<close>

lemma roundtrip_exact_divisor:
  assumes exact: "BigInt_pow10 d = Inr (10 ^ d)"
  shows "\<exists>s. fromBaseUnits (digits_of n) d = Inr s \<and> toBaseUnits s d = Inr (digits_of n)"
proof -
  let ?D = "10 ^ d :: int"
  let ?q = "int n div ?D" and ?f = "int n mod ?D"
  have qf: "bigint_div (int n) ?D = ?q" "bigint_rem (int n) ?D = ?f"
    using bigint_div_rem_nonneg [of "int n" ?D] by simp_all
  have q0: "0 \<le> ?q" and f0: "0 \<le> ?f" and fD: "?f < ?D"
    by (simp_all add: pos_imp_zdiv_nonneg_iff)
  let ?ip = "digits_of (nat ?q)"
  have ip: "BigInt_toString ?q = ?ip"
    using q0 by (rule BigInt_toString_nonneg)
  have ip_ne: "?ip \<noteq> []" by (rule digits_of_nonempty)
  have ip_dot: "CHR ''.'' \<notin> set ?ip"
    using digits_of_digits [of "nat ?q"] by auto
  have ip_val: "BigInt_of_string ?ip = Inr ?q"
    using q0 by (simp add: BigInt_of_digits_of)
  have "?q * ?D + ?f = int n"
    by (rule div_mult_mod_eq)
  then have whole: "BigInt_toString (?q * ?D + ?f) = digits_of n"
    by (simp only: BigInt_toString_nat)
  show ?thesis
  proof (cases "?f = 0")
    case True
    have conv: "fromBaseUnits (digits_of n) d = Inr ?ip"
      using True by (simp add: fromBaseUnits_def BigInt_of_digits_of exact decimal_string_def qf ip)
    have "toBaseUnits ?ip d = Inr (BigInt_toString (?q * ?D + 0))"
      using ip_ne
      by (simp add: toBaseUnits_def split_no_separator [OF ip_dot] or_else_def padEnd_def
          ip_val exact BigInt_of_zeros)
    with True whole conv show ?thesis by simp
  next
    case False
    have dpos: "0 < d"
      using False by (cases d) simp_all
    have "nat ?f < 10 ^ d"
      using fD f0 by (simp add: nat_less_iff)
    with dpos have "length (digits_of (nat ?f)) \<le> d"
      by (rule digits_of_length)
    then have len: "length (padStart d (CHR ''0'') (digits_of (nat ?f))) = d"
      by (rule padStart_length)
    let ?fs = "padStart d (CHR ''0'') (digits_of (nat ?f))"
    let ?tr = "strip_trailing_zeros ?fs"
    have fstr: "BigInt_toString ?f = digits_of (nat ?f)"
      using f0 by (rule BigInt_toString_nonneg)
    have fs_digits: "set ?fs \<subseteq> set ''0123456789''"
      using digits_of_digits [of "nat ?f"] by (auto simp: padStart_def)
    have tr_dot: "CHR ''.'' \<notin> set ?tr"
      using strip_trailing_zeros_set [of ?fs] fs_digits by auto
    have conv: "fromBaseUnits (digits_of n) d = Inr (?ip @ CHR ''.'' # ?tr)"
      using False
      by (simp add: fromBaseUnits_def BigInt_of_digits_of exact decimal_string_def qf ip fstr)
    have fs_val: "BigInt_of_string ?fs = Inr ?f"
      using BigInt_of_padded [of d "nat ?f"] f0 by simp
    have "toBaseUnits (?ip @ CHR ''.'' # ?tr) d = Inr (BigInt_toString (?q * ?D + ?f))"
      using ip_ne
      by (simp add: toBaseUnits_def split_one_separator [OF ip_dot tr_dot] or_else_def
          pad_stripped [OF len] ip_val exact fs_val)
    with whole conv show ?thesis by simp
  qed
qed

lemma BigInt_pow10_exact_upto_22:
  "list_all (\<lambda>d. BigInt_pow10 d = Inr (10 ^ d)) [0, 1, 2, 3, 4, 5, 6, 7, 8, 9, 10, 11, 12, 13, 14,
     15, 16, 17, 18, 19, 20, 21, 22]"
  by (simp add: BigInt_pow10_def Number_of_nat_def bitlen.simps cong: let_weak_cong)

lemma BigInt_pow10_exact: "d \<le> 22 \<Longrightarrow> BigInt_pow10 d = Inr (10 ^ d)"
proof -
  assume "d \<le> 22"
  then have "d = 0 \<or> d = 1 \<or> d = 2 \<or> d = 3 \<or> d = 4 \<or> d = 5 \<or> d = 6 \<or> d = 7 \<or> d = 8 \<or> d = 9
      \<or> d = 10 \<or> d = 11 \<or> d = 12 \<or> d = 13 \<or> d = 14 \<or> d = 15 \<or> d = 16 \<or> d = 17 \<or> d = 18
      \<or> d = 19 \<or> d = 20 \<or> d = 21 \<or> d = 22"
    by arith
  then have "d \<in> set [0, 1, 2, 3, 4, 5, 6, 7, 8, 9, 10, 11, 12, 13, 14,
     15, 16, 17, 18, 19, 20, 21, 22]"
    by (simp only: set_simps insert_iff) blast
  with BigInt_pow10_exact_upto_22 show ?thesis
    by (simp only: list_all_iff)
qed

text \<open>
  For every decimal-place count up to 22, where \<open>10 ** decimals\<close> is an exact double, and
  every non-negative integer written as \<open>toString\<close> writes it, converting to the decimal
  string and back to base units is the identity.
\<close>

lemma roundtrip_upto_22_decimals:
  "d \<le> 22 \<Longrightarrow>
     \<exists>s. fromBaseUnits (digits_of n) d = Inr s \<and> toBaseUnits s d = Inr (digits_of n)"
  by (rule roundtrip_exact_divisor) (rule BigInt_pow10_exact)

lemma BigInt_pow10_27: "BigInt_pow10 27 = Inr 1000000000000000013287555072"
  by (simp add: BigInt_pow10_def Number_of_nat_def bitlen.simps cong: let_weak_cong)

text \<open>
  C1. The round trip is the identity as long as \<open>10 ** decimals\<close> is exact
  (\<open>roundtrip_upto_22_decimals\<close>). With 27 decimal places the divisor
  \<open>BigInt(10 ** 27)\<close> is the double nearest to the power, 13287555072 more than it. The
  amount of \<open>10^27\<close> base units, which is one whole unit, then has the quotient 0 and a
  remainder of 28 digits: its decimal string is 0.1, and that string converts back to
  \<open>10^26\<close> base units, not to the amount.
\<close>

theorem roundtrip_27_decimals:
  "BigInt_pow10 27 = Inr 1000000000000000013287555072 \<and>
   fromBaseUnits ''1000000000000000000000000000'' 27 = Inr ''0.1'' \<and>
   toBaseUnits ''0.1'' 27 = Inr ''100000000000000000000000000'' \<and>
   ''100000000000000000000000000'' \<noteq> ''1000000000000000000000000000''"
proof -
  have a: "fromBaseUnits ''1000000000000000000000000000'' 27 = Inr ''0.1''"
    by (simp add: fromBaseUnits_def decimal_string_def BigInt_pow10_27 bigint_eval padStart_def
        strip_trailing_zeros_def replicate_numeral Let_def cong: let_weak_cong)
  have b: "toBaseUnits ''0.1'' 27 = Inr ''100000000000000000000000000''"
    by (simp add: toBaseUnits_def BigInt_pow10_27 bigint_eval padEnd_def or_else_def
        replicate_numeral Let_def cong: let_weak_cong)
  from BigInt_pow10_27 a b show ?thesis by simp
qed

end
